theory Spec2Isabelle
  imports Complex_Main "HOL-Library.Char_ord" "HOL-Library.List_Lexorder"
begin

section \<open>Data model\<close>

text \<open>
  The analytics engine of \<^verbatim>\<open>backend/app/analytics/advanced_analytics.py\<close> works on a
  pandas table of transactions. A table is modelled by the list of its column names and
  the list of its rows. A row carries one typed cell for every column the code reads or
  writes; a cell of a column that is not in \<open>columns\<close> is never read by the model, as
  the code raises \<^verbatim>\<open>KeyError\<close> (or takes a default) before it could.
  Amounts and scores are exact reals (the code's binary floats are abstracted), a
  timestamp is a number of seconds since 1970-01-01 00:00:00.

  The timestamp column comes in two kinds. A frame built from \<^verbatim>\<open>datetime\<close> values, as
  \<^verbatim>\<open>demonstrate_advanced_analytics\<close> builds it, has a \<^verbatim>\<open>datetime64\<close> column. A frame
  read by \<^verbatim>\<open>pd.read_csv\<close> without \<^verbatim>\<open>parse_dates\<close>, as the upload endpoints pass it,
  has an \<^verbatim>\<open>object\<close> column of date texts. The table records which of the two it is; the
  row holds the instant that \<^verbatim>\<open>pd.to_datetime\<close> reads from the cell, and the texts are
  taken to be dates in a format that pandas reads. The field is not looked at as long as
  the table has no timestamp column.
\<close>

datatype py_error = KeyError | ZeroDivisionError | TypeError | ValueError | AttributeError

datatype column_dtype = Datetime64 | Object

record transaction =
  transaction_id :: string
  customer_id :: string
  account_number :: string
  merchant_name :: string
  merchant_category :: string
  payment_method :: string
  amount :: real
  location :: string
  timestamp :: int
  hour :: int
  day_of_week :: int
  day_of_month :: int
  month :: int

record table =
  columns :: "string list"
  rows :: "transaction list"
  timestamp_dtype :: column_dtype

section \<open>Entity graph builder (network_analysis, lines 64-83)\<close>

text \<open>
  \<^verbatim>\<open>nx.DiGraph\<close>: the nodes in insertion order and the edges with their attribute
  dictionaries in insertion order. \<open>add_edge\<close> appends an entry without looking whether
  the pair is there, so that the uniqueness of an edge is a property of the loop below
  and not of the representation.
\<close>

record edge_data =
  weight :: real
  transaction_count :: nat
  timestamps :: "int list"

record digraph =
  nodes :: "string list"
  edges :: "((string \<times> string) \<times> edge_data) list"

definition empty_graph :: digraph where
  "empty_graph = \<lparr>nodes = [], edges = []\<rparr>"

definition has_edge :: "digraph \<Rightarrow> string \<Rightarrow> string \<Rightarrow> bool" where
  "has_edge G u v = ((u, v) \<in> set (map fst (edges G)))"

definition add_node :: "string \<Rightarrow> string list \<Rightarrow> string list" where
  "add_node v ns = (if v \<in> set ns then ns else ns @ [v])"

definition add_edge :: "digraph \<Rightarrow> string \<Rightarrow> string \<Rightarrow> edge_data \<Rightarrow> digraph" where
  "add_edge G u v d =
     \<lparr>nodes = add_node v (add_node u (nodes G)), edges = edges G @ [((u, v), d)]\<rparr>"

text \<open>\<^verbatim>\<open>G[u][v]['weight'] += amount\<close> and the two statements after it, on every entry of the pair.\<close>

definition accumulate :: "real \<Rightarrow> int \<Rightarrow> edge_data \<Rightarrow> edge_data" where
  "accumulate a ts d =
     \<lparr>weight = weight d + a, transaction_count = transaction_count d + 1,
      timestamps = timestamps d @ [ts]\<rparr>"

definition update_edge :: "digraph \<Rightarrow> string \<Rightarrow> string \<Rightarrow> real \<Rightarrow> int \<Rightarrow> digraph" where
  "update_edge G u v a ts =
     G\<lparr>edges := map (\<lambda>(k, d). if k = (u, v) then (k, accumulate a ts d) else (k, d)) (edges G)\<rparr>"

text \<open>Decimal rendering of an integer, for the f-strings \<^verbatim>\<open>f"CUST_{hash(...)}"\<close>.\<close>

fun show_nat :: "nat \<Rightarrow> string" where
  "show_nat n =
     (if n < 10 then [char_of (48 + n)] else show_nat (n div 10) @ [char_of (48 + n mod 10)])"

definition show_int :: "int \<Rightarrow> string" where
  "show_int i = (if i < 0 then CHR ''-'' # show_nat (nat (- i)) else show_nat (nat i))"

text \<open>
  \<^verbatim>\<open>transaction.get('customer_id', f"CUST_{hash(str(transaction.get('account_number', '')))}")\<close>:
  the cell when the column is there, the default otherwise. Python's \<open>hash\<close> of a string is
  salted per process and is a parameter.
\<close>

definition source_key :: "(string \<Rightarrow> int) \<Rightarrow> string list \<Rightarrow> transaction \<Rightarrow> string" where
  "source_key py_hash cols tx =
     (if ''customer_id'' \<in> set cols then customer_id tx
      else ''CUST_'' @ show_int (py_hash
        (if ''account_number'' \<in> set cols then account_number tx else '''')))"

definition target_key :: "(string \<Rightarrow> int) \<Rightarrow> string list \<Rightarrow> transaction \<Rightarrow> string" where
  "target_key py_hash cols tx =
     (if ''merchant_name'' \<in> set cols then merchant_name tx
      else ''MERCH_'' @ show_int (py_hash
        (if ''merchant_category'' \<in> set cols then merchant_category tx else '''')))"

definition amount_of :: "string list \<Rightarrow> transaction \<Rightarrow> real" where
  "amount_of cols tx = (if ''amount'' \<in> set cols then amount tx else 0)"

definition timestamp_of :: "int \<Rightarrow> string list \<Rightarrow> transaction \<Rightarrow> int" where
  "timestamp_of now cols tx = (if ''timestamp'' \<in> set cols then timestamp tx else now)"

text \<open>The body of the loop over \<^verbatim>\<open>transactions_df.iterrows()\<close>.\<close>

definition add_transaction ::
  "(string \<Rightarrow> int) \<Rightarrow> int \<Rightarrow> string list \<Rightarrow> digraph \<Rightarrow> transaction \<Rightarrow> digraph" where
  "add_transaction py_hash now cols G tx =
     (let source = source_key py_hash cols tx;
          target = target_key py_hash cols tx;
          amt = amount_of cols tx;
          ts = timestamp_of now cols tx
      in if has_edge G source target then update_edge G source target amt ts
         else add_edge G source target
                \<lparr>weight = amt, transaction_count = 1, timestamps = [ts]\<rparr>)"

definition build_graph :: "(string \<Rightarrow> int) \<Rightarrow> int \<Rightarrow> table \<Rightarrow> digraph" where
  "build_graph py_hash now df =
     foldl (add_transaction py_hash now (columns df)) empty_graph (rows df)"

section \<open>Results and the external libraries\<close>

text \<open>
  \<^verbatim>\<open>Dict[str, Any]\<close>: the summary and the detailed results of an \<^verbatim>\<open>AnalyticsResult\<close>
  are dictionaries from strings to Python values; a key that was never stored is absent.
\<close>

datatype pyval =
    PInt int
  | PReal real
  | PStr string
  | PNone
  | PList "pyval list"
  | PDict "(string \<times> pyval) list"

record AnalyticsResult =
  analysis_type :: string
  result_timestamp :: int
  summary :: "(string \<times> pyval) list"
  detailed_results :: "(string \<times> pyval) list"
  visualizations :: "string list"
  recommendations :: "string list"

text \<open>
  What the engine takes from networkx, pandas, scikit-learn and the Python runtime without
  looking inside: each is a function of its arguments. \<open>groupby_agg c df\<close> is the
  \<^verbatim>\<open>df.groupby(c).agg({...}).round(2).to_dict()\<close> table of a report, \<open>format_1f\<close> the
  rendering \<^verbatim>\<open>f"{x:.1f}"\<close>, \<open>scaler_fit\<close> and \<open>forest_fit\<close> yield the fitted state of the
  \<^verbatim>\<open>StandardScaler\<close> and of the \<^verbatim>\<open>IsolationForest\<close> (whose seed is its first argument).
\<close>

record ('s, 'f) library =
  py_hash :: "string \<Rightarrow> int"
  average_clustering :: "digraph \<Rightarrow> real"
  betweenness_centrality :: "digraph \<Rightarrow> string \<Rightarrow> real"
  pagerank :: "digraph \<Rightarrow> string \<Rightarrow> real"
  groupby_agg :: "string \<Rightarrow> table \<Rightarrow> pyval"
  format_1f :: "real \<Rightarrow> string"
  scaler_fit :: "real list list \<Rightarrow> 's"
  scaler_transform :: "'s \<Rightarrow> real list list \<Rightarrow> real list list"
  forest_fit :: "nat \<Rightarrow> real list list \<Rightarrow> 'f"
  forest_predict :: "'f \<Rightarrow> real list list \<Rightarrow> int list"

text \<open>
  The engine object: \<^verbatim>\<open>self.scaler\<close>, \<^verbatim>\<open>self.isolation_forest\<close> (\<open>None\<close> until fitted)
  and \<^verbatim>\<open>self.analysis_cache\<close>.
\<close>

record ('s, 'f) engine =
  scaler :: "'s option"
  isolation_forest :: "'f option"
  analysis_cache :: "(string \<times> pyval) list"

definition init_engine :: "('s, 'f) engine" where
  "init_engine = \<lparr>scaler = None, isolation_forest = None, analysis_cache = []\<rparr>"

section \<open>Centrality and community analyzer (network_analysis, lines 85-152)\<close>

definition number_of_nodes :: "digraph \<Rightarrow> nat" where
  "number_of_nodes G = length (nodes G)"

definition number_of_edges :: "digraph \<Rightarrow> nat" where
  "number_of_edges G = length (edges G)"

text \<open>\<^verbatim>\<open>nx.density\<close> of a directed graph: 0 without edges or with at most one node.\<close>

definition density :: "digraph \<Rightarrow> real" where
  "density G =
     (let n = number_of_nodes G; m = number_of_edges G
      in if m = 0 \<or> n \<le> 1 then 0 else real m / (real n * (real n - 1)))"

text \<open>\<^verbatim>\<open>G.degree(node)\<close>: in-degree plus out-degree.\<close>

definition degree :: "digraph \<Rightarrow> string \<Rightarrow> nat" where
  "degree G v =
     length (filter (\<lambda>e. fst (fst e) = v) (edges G)) +
     length (filter (\<lambda>e. snd (fst e) = v) (edges G))"

definition degree_centrality :: "digraph \<Rightarrow> string \<Rightarrow> real" where
  "degree_centrality G v =
     (if number_of_nodes G \<le> 1 then 1
      else real (degree G v) * (1 / (real (number_of_nodes G) - 1)))"

record suspicious_node =
  node_id :: string
  sn_degree_centrality :: real
  sn_betweenness_centrality :: real
  sn_pagerank :: real
  total_connections :: nat

definition is_suspicious :: "('s, 'f) library \<Rightarrow> digraph \<Rightarrow> string \<Rightarrow> bool" where
  "is_suspicious lib G v =
     (degree_centrality G v > 0.1 \<or> betweenness_centrality lib G v > 0.1 \<or>
      pagerank lib G v > 0.05)"

definition suspicious_entry :: "('s, 'f) library \<Rightarrow> digraph \<Rightarrow> string \<Rightarrow> suspicious_node" where
  "suspicious_entry lib G v =
     \<lparr>node_id = v, sn_degree_centrality = degree_centrality G v,
      sn_betweenness_centrality = betweenness_centrality lib G v,
      sn_pagerank = pagerank lib G v, total_connections = degree G v\<rparr>"

definition combined_score :: "suspicious_node \<Rightarrow> real" where
  "combined_score x = sn_degree_centrality x + sn_betweenness_centrality x + sn_pagerank x"

text \<open>
  The loop over \<^verbatim>\<open>G.nodes()\<close> and the stable \<^verbatim>\<open>sort(key=..., reverse=True)\<close>: descending
  by the combined score, equal scores in the order of the nodes.
\<close>

definition find_suspicious_nodes :: "('s, 'f) library \<Rightarrow> digraph \<Rightarrow> suspicious_node list" where
  "find_suspicious_nodes lib G =
     sort_key (\<lambda>x. - combined_score x)
       (map (suspicious_entry lib G) (filter (is_suspicious lib G) (nodes G)))"

text \<open>
  \<^verbatim>\<open>nx.connected_components(G.to_undirected())\<close>: every node starts as a component of its
  own, and every edge joins the components of its two ends. networkx finds the same sets
  by breadth-first search; the order of the sets and inside a set is not used by the code.
\<close>

definition join_components :: "string list list \<Rightarrow> string \<times> string \<Rightarrow> string list list" where
  "join_components comps e =
     (let touched = filter (\<lambda>c. fst e \<in> set c \<or> snd e \<in> set c) comps;
          others = filter (\<lambda>c. \<not> (fst e \<in> set c \<or> snd e \<in> set c)) comps
      in concat touched # others)"

definition connected_components :: "digraph \<Rightarrow> string list list" where
  "connected_components G =
     foldl join_components (map (\<lambda>v. [v]) (nodes G)) (map fst (edges G))"

definition suspicious_node_dict :: "suspicious_node \<Rightarrow> pyval" where
  "suspicious_node_dict x =
     PDict [(''node_id'', PStr (node_id x)),
            (''degree_centrality'', PReal (sn_degree_centrality x)),
            (''betweenness_centrality'', PReal (sn_betweenness_centrality x)),
            (''pagerank'', PReal (sn_pagerank x)),
            (''total_connections'', PInt (int (total_connections x)))]"

text \<open>\<^verbatim>\<open>_serialize_graph\<close>.\<close>

definition serialize_graph :: "digraph \<Rightarrow> pyval" where
  "serialize_graph G =
     PDict [(''nodes'', PList (map (\<lambda>v. PDict [(''id'', PStr v), (''degree'', PInt (int (degree G v)))])
                                (nodes G))),
            (''edges'', PList (map (\<lambda>e. PDict [(''source'', PStr (fst (fst e))),
                                                (''target'', PStr (snd (fst e))),
                                                (''weight'', PReal (weight (snd e)))])
                                (edges G))),
            (''metrics'', PDict [(''node_count'', PInt (int (number_of_nodes G))),
                                 (''edge_count'', PInt (int (number_of_edges G))),
                                 (''density'', PReal (density G))])]"

definition network_risk_level :: "nat \<Rightarrow> string" where
  "network_risk_level n = (if n > 10 then ''HIGH'' else if n > 5 then ''MEDIUM'' else ''LOW'')"

text \<open>
  The analyzers are methods of the engine working on a table that the caller keeps: each
  takes the engine, the clock and the table and returns its outcome (the exception it
  raises, or its result) with the engine and the table as it leaves them.
\<close>

type_synonym ('s, 'f) outcome = "(py_error + AnalyticsResult) \<times> ('s, 'f) engine \<times> table"

definition network_metrics :: "('s, 'f) library \<Rightarrow> digraph \<Rightarrow> (string \<times> pyval) list" where
  "network_metrics lib G =
     [(''total_nodes'', PInt (int (number_of_nodes G))),
      (''total_edges'', PInt (int (number_of_edges G))),
      (''density'', PReal (density G)),
      (''average_clustering'',
         if number_of_nodes G > 0 then PReal (average_clustering lib G) else PInt 0)]"

definition suspicious_nodes :: "('s, 'f) library \<Rightarrow> digraph \<Rightarrow> suspicious_node list" where
  "suspicious_nodes lib G = (if number_of_nodes G > 0 then find_suspicious_nodes lib G else [])"

definition large_communities :: "digraph \<Rightarrow> string list list" where
  "large_communities G =
     (if number_of_nodes G > 0
      then filter (\<lambda>comm. length comm > 3) (connected_components G) else [])"

definition network_recommendations :: "('s, 'f) library \<Rightarrow> digraph \<Rightarrow> string list" where
  "network_recommendations lib G =
     (if length (suspicious_nodes lib G) > 0
      then [''Investigate top '' @ show_nat (min 5 (length (suspicious_nodes lib G))) @
            '' high-centrality entities''] else []) @
     (if length (large_communities G) > 0
      then [''Analyze '' @ show_nat (length (large_communities G)) @
            '' large transaction communities''] else []) @
     (if density G > 0.3
      then [''High network density indicates potential organized activity''] else [])"

text \<open>The result of lines 136-152, on the graph of the table.\<close>

definition network_result :: "('s, 'f) library \<Rightarrow> int \<Rightarrow> digraph \<Rightarrow> AnalyticsResult" where
  "network_result lib now G =
     \<lparr>analysis_type = ''network_analysis'',
      result_timestamp = now,
      summary =
        [(''network_metrics'', PDict (network_metrics lib G)),
         (''suspicious_entities_count'', PInt (int (length (suspicious_nodes lib G)))),
         (''communities_detected'', PInt (int (length (large_communities G)))),
         (''risk_level'', PStr (network_risk_level (length (suspicious_nodes lib G))))],
      detailed_results =
        [(''suspicious_nodes'',
            PList (map suspicious_node_dict (take 10 (suspicious_nodes lib G)))),
         (''communities'', PList (map (\<lambda>comm. PList (map PStr comm)) (large_communities G))),
         (''network_graph'', serialize_graph G)],
      visualizations = [''network_graph'', ''centrality_distribution'', ''community_detection''],
      recommendations = network_recommendations lib G\<rparr>"

definition network_analysis ::
  "('s, 'f) library \<Rightarrow> int \<Rightarrow> ('s, 'f) engine \<Rightarrow> table \<Rightarrow> ('s, 'f) outcome" where
  "network_analysis lib now self df =
     (Inr (network_result lib now (build_graph (py_hash lib) now df)), self, df)"

section \<open>Calendar fields of a timestamp\<close>

text \<open>
  \<^verbatim>\<open>.dt.hour\<close>, \<^verbatim>\<open>.dt.dayofweek\<close> (Monday is 0; 1970-01-01 was a Thursday),
  \<^verbatim>\<open>.dt.day\<close>, \<^verbatim>\<open>.dt.month\<close> and \<^verbatim>\<open>.dt.date\<close> (as a day number) of a timestamp in
  seconds, in the proleptic Gregorian calendar.
\<close>

definition hour_of :: "int \<Rightarrow> int" where
  "hour_of ts = (ts div 3600) mod 24"

definition date_of :: "int \<Rightarrow> int" where
  "date_of ts = ts div 86400"

definition dayofweek_of :: "int \<Rightarrow> int" where
  "dayofweek_of ts = (date_of ts + 3) mod 7"

definition day_of_year_march :: "int \<Rightarrow> int" where
  "day_of_year_march days =
     (let doe = (days + 719468) mod 146097;
          yoe = (doe - doe div 1460 + doe div 36524 - doe div 146096) div 365
      in doe - (365 * yoe + yoe div 4 - yoe div 100))"

definition month_of :: "int \<Rightarrow> int" where
  "month_of ts =
     (let mp = (5 * day_of_year_march (date_of ts) + 2) div 153
      in if mp < 10 then mp + 3 else mp - 9)"

definition day_of :: "int \<Rightarrow> int" where
  "day_of ts =
     (let doy = day_of_year_march (date_of ts); mp = (5 * doy + 2) div 153
      in doy - (153 * mp + 2) div 5 + 1)"

section \<open>Table helpers\<close>

text \<open>\<^verbatim>\<open>df[c] = ...\<close> keeps the place of a column that exists and appends a new one.\<close>

definition add_column :: "string \<Rightarrow> table \<Rightarrow> table" where
  "add_column c df = (if c \<in> set (columns df) then df else df\<lparr>columns := columns df @ [c]\<rparr>)"

definition percentage :: "nat \<Rightarrow> nat \<Rightarrow> real" where
  "percentage k n = (real k / real n) * 100"

text \<open>The cell of a row as a Python value, for the columns the model carries.\<close>

definition known_columns :: "string list" where
  "known_columns =
     [''transaction_id'', ''customer_id'', ''account_number'', ''merchant_name'',
      ''merchant_category'', ''payment_method'', ''amount'', ''location'', ''timestamp'',
      ''hour'', ''day_of_week'', ''day_of_month'', ''month'']"

definition cell :: "string \<Rightarrow> transaction \<Rightarrow> pyval" where
  "cell c tx =
     (if c = ''transaction_id'' then PStr (transaction_id tx)
      else if c = ''customer_id'' then PStr (customer_id tx)
      else if c = ''account_number'' then PStr (account_number tx)
      else if c = ''merchant_name'' then PStr (merchant_name tx)
      else if c = ''merchant_category'' then PStr (merchant_category tx)
      else if c = ''payment_method'' then PStr (payment_method tx)
      else if c = ''amount'' then PReal (amount tx)
      else if c = ''location'' then PStr (location tx)
      else if c = ''timestamp'' then PInt (timestamp tx)
      else if c = ''hour'' then PInt (hour tx)
      else if c = ''day_of_week'' then PInt (day_of_week tx)
      else if c = ''day_of_month'' then PInt (day_of_month tx)
      else PInt (month tx))"

text \<open>\<^verbatim>\<open>.to_dict('records')\<close>.\<close>

definition record_of :: "string list \<Rightarrow> transaction \<Rightarrow> (string \<times> pyval) list" where
  "record_of cols tx = map (\<lambda>c. (c, cell c tx)) (filter (\<lambda>c. c \<in> set known_columns) cols)"

definition to_records :: "string list \<Rightarrow> transaction list \<Rightarrow> pyval list" where
  "to_records cols txs = map (\<lambda>tx. PDict (record_of cols tx)) txs"

text \<open>
  \<^verbatim>\<open>.value_counts()\<close>: the distinct values with their counts, the most frequent first
  (equal counts in the order of first appearance); \<^verbatim>\<open>.nunique()\<close>.
\<close>

fun distinct_values :: "'a list \<Rightarrow> 'a list" where
  "distinct_values [] = []"
| "distinct_values (x # xs) = x # filter (\<lambda>y. y \<noteq> x) (distinct_values xs)"

definition value_counts :: "string list \<Rightarrow> (string \<times> nat) list" where
  "value_counts xs =
     sort_key (\<lambda>p. - int (snd p))
       (map (\<lambda>v. (v, length (filter (\<lambda>x. x = v) xs))) (distinct_values xs))"

definition nunique :: "'a list \<Rightarrow> nat" where
  "nunique xs = length (distinct_values xs)"

definition counts_dict :: "(string \<times> nat) list \<Rightarrow> pyval" where
  "counts_dict cs = PDict (map (\<lambda>p. (fst p, PInt (int (snd p)))) cs)"

text \<open>An anomaly or alert dictionary: type, severity, description and one more entry.\<close>

record anomaly =
  anomaly_type :: string
  severity :: string
  description :: string
  extra :: "string \<times> pyval"

definition anomaly_dict :: "anomaly \<Rightarrow> pyval" where
  "anomaly_dict a =
     PDict [(''type'', PStr (anomaly_type a)), (''severity'', PStr (severity a)),
            (''description'', PStr (description a)), extra a]"

text \<open>
  \<^verbatim>\<open>'HIGH' if any(a['severity'] == 'HIGH' for a in anomalies) else 'MEDIUM' if len(anomalies) > 0 else 'LOW'\<close>
\<close>

definition severity_risk_level :: "anomaly list \<Rightarrow> string" where
  "severity_risk_level anomalies =
     (if list_ex (\<lambda>a. severity a = ''HIGH'') anomalies then ''HIGH''
      else if length anomalies > 0 then ''MEDIUM'' else ''LOW'')"

section \<open>Temporal anomaly detector (temporal_pattern_analysis)\<close>

text \<open>
  Lines 166-174 write into the caller's table: the timestamp column when it is missing
  (the current instant in every row, a \<^verbatim>\<open>datetime64\<close> column), then the four calendar
  columns, read through \<^verbatim>\<open>pd.to_datetime\<close>. A timestamp column that is there is left
  as it is, text included.
\<close>

definition ensure_timestamp :: "int \<Rightarrow> table \<Rightarrow> table" where
  "ensure_timestamp now df =
     (if ''timestamp'' \<notin> set (columns df)
      then add_column ''timestamp''
             (df\<lparr>rows := map (\<lambda>tx. tx\<lparr>timestamp := now\<rparr>) (rows df),
                 timestamp_dtype := Datetime64\<rparr>)
      else df)"

definition time_features :: "transaction \<Rightarrow> transaction" where
  "time_features tx =
     tx\<lparr>hour := hour_of (timestamp tx),
        day_of_week := dayofweek_of (timestamp tx),
        day_of_month := day_of (timestamp tx),
        month := month_of (timestamp tx)\<rparr>"

definition extract_time_features :: "table \<Rightarrow> table" where
  "extract_time_features df =
     add_column ''month'' (add_column ''day_of_month'' (add_column ''day_of_week''
       (add_column ''hour'' (df\<lparr>rows := map time_features (rows df)\<rparr>))))"

definition unusual_hours :: "int list" where
  "unusual_hours = [0, 1, 2, 3, 4, 5, 22, 23]"

text \<open>
  The rows of the table sorted by timestamp whose distance to the row before is positive
  and at most 300 seconds, each with its \<open>time_diff\<close>; the first row has none.
\<close>

fun rapid_succession :: "transaction list \<Rightarrow> (transaction \<times> int) list" where
  "rapid_succession (a # b # txs) =
     (if timestamp b - timestamp a \<le> 300 \<and> timestamp b - timestamp a > 0
      then (b, timestamp b - timestamp a) # rapid_succession (b # txs)
      else rapid_succession (b # txs))"
| "rapid_succession txs = []"

definition temporal_table :: "int \<Rightarrow> table \<Rightarrow> table" where
  "temporal_table now df0 = extract_time_features (ensure_timestamp now df0)"

definition unusual_hour_transactions :: "table \<Rightarrow> transaction list" where
  "unusual_hour_transactions df = filter (\<lambda>tx. hour tx \<in> set unusual_hours) (rows df)"

definition unusual_hour_percentage :: "table \<Rightarrow> real" where
  "unusual_hour_percentage df =
     percentage (length (unusual_hour_transactions df)) (length (rows df))"

definition rapid_transactions :: "table \<Rightarrow> (transaction \<times> int) list" where
  "rapid_transactions df = rapid_succession (sort_key timestamp (rows df))"

definition velocity_abuse_percentage :: "table \<Rightarrow> real" where
  "velocity_abuse_percentage df = percentage (length (rapid_transactions df)) (length (rows df))"

definition weekend_transactions :: "table \<Rightarrow> transaction list" where
  "weekend_transactions df = filter (\<lambda>tx. day_of_week tx \<in> {5, 6}) (rows df)"

definition weekend_percentage :: "table \<Rightarrow> real" where
  "weekend_percentage df = percentage (length (weekend_transactions df)) (length (rows df))"

text \<open>The anomalies of lines 208-238, in the order of the three checks.\<close>

definition temporal_anomalies :: "('s, 'f) library \<Rightarrow> table \<Rightarrow> anomaly list" where
  "temporal_anomalies lib df =
     (if unusual_hour_percentage df > 15
      then [\<lparr>anomaly_type = ''unusual_hours'', severity = ''HIGH'',
             description = format_1f lib (unusual_hour_percentage df) @
               ''% of transactions occur during unusual hours'',
             extra = (''count'', PInt (int (length (unusual_hour_transactions df))))\<rparr>]
      else []) @
     (if velocity_abuse_percentage df > 5
      then [\<lparr>anomaly_type = ''velocity_abuse'', severity = ''MEDIUM'',
             description = format_1f lib (velocity_abuse_percentage df) @
               ''% of transactions show rapid succession patterns'',
             extra = (''count'', PInt (int (length (rapid_transactions df))))\<rparr>]
      else []) @
     (if weekend_percentage df > 40
      then [\<lparr>anomaly_type = ''weekend_activity'', severity = ''MEDIUM'',
             description = ''High weekend activity: '' @
               format_1f lib (weekend_percentage df) @ ''% of transactions'',
             extra = (''count'', PInt (int (length (weekend_transactions df))))\<rparr>]
      else [])"

definition temporal_recommendations :: "anomaly list \<Rightarrow> string list" where
  "temporal_recommendations anomalies =
     map (\<lambda>a. if severity a = ''HIGH''
               then ''Immediate investigation required: '' @ description a
               else ''Monitor closely: '' @ description a) anomalies @
     (if length anomalies = 0
      then [''Temporal patterns appear normal - continue routine monitoring'']
      else [])"

text \<open>The result of lines 251-271, on the table with its calendar columns.\<close>

definition temporal_result :: "('s, 'f) library \<Rightarrow> int \<Rightarrow> table \<Rightarrow> AnalyticsResult" where
  "temporal_result lib now df =
     \<lparr>analysis_type = ''temporal_pattern_analysis'',
      result_timestamp = now,
      summary =
        [(''total_transactions'', PInt (int (length (rows df)))),
         (''unusual_hour_percentage'', PReal (unusual_hour_percentage df)),
         (''velocity_abuse_percentage'', PReal (velocity_abuse_percentage df)),
         (''weekend_activity_percentage'', PReal (weekend_percentage df)),
         (''anomalies_detected'', PInt (int (length (temporal_anomalies lib df)))),
         (''risk_level'', PStr (severity_risk_level (temporal_anomalies lib df)))],
      detailed_results =
        [(''hourly_stats'', groupby_agg lib ''hour'' df),
         (''daily_stats'', groupby_agg lib ''day_of_week'' df),
         (''monthly_stats'', groupby_agg lib ''month'' df),
         (''anomalies'', PList (map anomaly_dict (temporal_anomalies lib df))),
         (''rapid_transactions'',
            PList (take 20 (map (\<lambda>p. PDict (record_of (columns df) (fst p) @
                                            [(''time_diff'', PInt (snd p))]))
                             (rapid_transactions df))))],
      visualizations = [''hourly_heatmap'', ''daily_patterns'', ''velocity_timeline''],
      recommendations = temporal_recommendations (temporal_anomalies lib df)\<rparr>"

text \<open>
  The grouped aggregation of line 177 names the columns \<open>amount\<close> and \<open>transaction_id\<close>
  and raises \<^verbatim>\<open>KeyError\<close> when one is missing; the division of line 185 raises
  \<^verbatim>\<open>ZeroDivisionError\<close> on a table without rows. Line 194 takes
  \<^verbatim>\<open>.diff().dt.total_seconds()\<close> of the timestamp column itself, not of its conversion:
  on a column of texts the difference of two rows raises \<^verbatim>\<open>TypeError\<close>, and with one
  row only, where there is nothing to subtract, the \<^verbatim>\<open>.dt\<close> accessor raises
  \<^verbatim>\<open>AttributeError\<close>. All of them come after the writes into the table.
\<close>

definition temporal_pattern_analysis ::
  "('s, 'f) library \<Rightarrow> int \<Rightarrow> ('s, 'f) engine \<Rightarrow> table \<Rightarrow> ('s, 'f) outcome" where
  "temporal_pattern_analysis lib now self df0 =
     (let df = temporal_table now df0
      in if ''amount'' \<notin> set (columns df) \<or> ''transaction_id'' \<notin> set (columns df)
         then (Inl KeyError, self, df)
         else if length (rows df) = 0 then (Inl ZeroDivisionError, self, df)
         else if timestamp_dtype df = Object
         then (Inl (if length (rows df) = 1 then AttributeError else TypeError), self, df)
         else (Inr (temporal_result lib now df), self, df))"

section \<open>Geographic risk analyzer (geographic_clustering_analysis)\<close>

definition geo_high_risk_locations :: "string list" where
  "geo_high_risk_locations = [''Border_Area'', ''Unknown'', ''Offshore'', ''Tax_Haven'']"

definition domestic_locations :: "string list" where
  "domestic_locations =
     [''Mumbai'', ''Delhi'', ''Bangalore'', ''Chennai'', ''Pune'', ''Hyderabad'', ''Kolkata'',
      ''Ahmedabad'']"

definition no_location_result :: "int \<Rightarrow> AnalyticsResult" where
  "no_location_result now =
     \<lparr>analysis_type = ''geographic_clustering'',
      result_timestamp = now,
      summary = [(''error'', PStr ''No location data available'')],
      detailed_results = [],
      visualizations = [],
      recommendations = [''Ensure location data is available for geographic analysis'']\<rparr>"

definition high_risk_transactions :: "table \<Rightarrow> transaction list" where
  "high_risk_transactions df =
     filter (\<lambda>tx. location tx \<in> set geo_high_risk_locations) (rows df)"

definition high_risk_percentage :: "table \<Rightarrow> real" where
  "high_risk_percentage df = percentage (length (high_risk_transactions df)) (length (rows df))"

definition top_locations :: "table \<Rightarrow> (string \<times> nat) list" where
  "top_locations df = take 5 (value_counts (map location (rows df)))"

definition unique_locations :: "table \<Rightarrow> nat" where
  "unique_locations df = nunique (map location (rows df))"

definition diversity_score :: "table \<Rightarrow> real" where
  "diversity_score df =
     (if length (rows df) > 0 then real (unique_locations df) / real (length (rows df)) else 0)"

definition cross_border_transactions :: "table \<Rightarrow> transaction list" where
  "cross_border_transactions df =
     filter (\<lambda>tx. location tx \<notin> set domestic_locations) (rows df)"

definition cross_border_percentage :: "table \<Rightarrow> real" where
  "cross_border_percentage df =
     percentage (length (cross_border_transactions df)) (length (rows df))"

text \<open>The anomalies of lines 317-360, in the order of the four checks.\<close>

definition geographic_anomalies :: "('s, 'f) library \<Rightarrow> table \<Rightarrow> anomaly list" where
  "geographic_anomalies lib df =
     (if high_risk_percentage df > 10
      then [\<lparr>anomaly_type = ''high_risk_locations'', severity = ''HIGH'',
             description = format_1f lib (high_risk_percentage df) @
               ''% of transactions from high-risk locations'',
             extra = (''locations'',
               counts_dict (value_counts (map location (high_risk_transactions df))))\<rparr>]
      else []) @
     (if length (top_locations df) > 0 \<and>
         real (snd (hd (top_locations df))) / real (length (rows df)) > 0.5
      then [\<lparr>anomaly_type = ''location_concentration'', severity = ''MEDIUM'',
             description = ''Over 50% of transactions concentrated in '' @
               fst (hd (top_locations df)),
             extra = (''concentration_percentage'',
               PReal (real (snd (hd (top_locations df))) / real (length (rows df)) * 100))\<rparr>]
      else []) @
     (if diversity_score df < 0.05 \<and> unique_locations df < 5
      then [\<lparr>anomaly_type = ''low_diversity'', severity = ''MEDIUM'',
             description = ''Low geographic diversity: only '' @
               show_nat (unique_locations df) @ '' unique locations'',
             extra = (''diversity_score'', PReal (diversity_score df))\<rparr>]
      else []) @
     (if cross_border_percentage df > 20
      then [\<lparr>anomaly_type = ''cross_border_activity'', severity = ''HIGH'',
             description = ''High cross-border activity: '' @
               format_1f lib (cross_border_percentage df) @ ''% of transactions'',
             extra = (''foreign_locations'',
               counts_dict (value_counts (map location (cross_border_transactions df))))\<rparr>]
      else [])"

definition geographic_recommendations :: "anomaly list \<Rightarrow> string list" where
  "geographic_recommendations anomalies =
     map (\<lambda>a. if severity a = ''HIGH''
               then ''Priority investigation: '' @ description a
               else ''Enhanced monitoring: '' @ description a) anomalies @
     (if length anomalies = 0
      then [''Geographic patterns appear normal - maintain standard monitoring'']
      else []) @
     [''Consider implementing real-time location verification'',
      ''Cross-reference with known high-risk geographic zones'']"

text \<open>The result of lines 376-395.\<close>

definition geographic_result :: "('s, 'f) library \<Rightarrow> int \<Rightarrow> table \<Rightarrow> AnalyticsResult" where
  "geographic_result lib now df =
     \<lparr>analysis_type = ''geographic_clustering'',
      result_timestamp = now,
      summary =
        [(''total_locations'', PInt (int (unique_locations df))),
         (''high_risk_percentage'', PReal (high_risk_percentage df)),
         (''cross_border_percentage'', PReal (cross_border_percentage df)),
         (''diversity_score'', PReal (diversity_score df)),
         (''anomalies_detected'', PInt (int (length (geographic_anomalies lib df)))),
         (''risk_level'', PStr (severity_risk_level (geographic_anomalies lib df)))],
      detailed_results =
        [(''location_stats'', groupby_agg lib ''location'' df),
         (''top_locations'', counts_dict (top_locations df)),
         (''geographic_anomalies'', PList (map anomaly_dict (geographic_anomalies lib df))),
         (''high_risk_transactions'',
            PList (take 50 (to_records (columns df) (high_risk_transactions df))))],
      visualizations = [''location_heatmap'', ''geographic_distribution'', ''risk_zones_map''],
      recommendations = geographic_recommendations (geographic_anomalies lib df)\<rparr>"

text \<open>
  Without a location column the analyzer returns its error summary. Otherwise the grouped
  aggregation of line 296 names the columns \<open>amount\<close> and \<open>customer_id\<close>
  (\<^verbatim>\<open>KeyError\<close> when one is missing) and the division of line 306 raises
  \<^verbatim>\<open>ZeroDivisionError\<close> on a table without rows.
\<close>

definition geographic_clustering_analysis ::
  "('s, 'f) library \<Rightarrow> int \<Rightarrow> ('s, 'f) engine \<Rightarrow> table \<Rightarrow> ('s, 'f) outcome" where
  "geographic_clustering_analysis lib now self df =
     (if ''location'' \<notin> set (columns df) then (Inr (no_location_result now), self, df)
      else if ''amount'' \<notin> set (columns df) \<or> ''customer_id'' \<notin> set (columns df)
      then (Inl KeyError, self, df)
      else if length (rows df) = 0 then (Inl ZeroDivisionError, self, df)
      else (Inr (geographic_result lib now df), self, df))"

section \<open>Behavioral profiler (behavioral_profiling)\<close>

definition mean :: "real list \<Rightarrow> real" where
  "mean xs = sum_list xs / real (length xs)"

text \<open>\<^verbatim>\<open>Series.std()\<close>: the sample standard deviation, \<open>NaN\<close> (here \<open>None\<close>) below two values.\<close>

definition sample_std :: "real list \<Rightarrow> real option" where
  "sample_std xs =
     (if length xs < 2 then None
      else Some (sqrt (sum_list (map (\<lambda>x. (x - mean xs)\<^sup>2) xs) / (real (length xs) - 1))))"

text \<open>\<^verbatim>\<open>amount % 1000 == 0\<close>.\<close>

definition multiple_of_1000 :: "real \<Rightarrow> bool" where
  "multiple_of_1000 a = (real_of_int \<lfloor>a / 1000\<rfloor> * 1000 = a)"

record behavioral_feature =
  bf_customer_id :: string
  bf_transaction_count :: nat
  total_amount :: real
  avg_amount :: real
  amount_variance :: "real option"
  velocity :: real
  round_amount_percentage :: real
  location_diversity :: nat
  payment_method_diversity :: nat
  hour_variance :: "real option"

text \<open>
  \<^verbatim>\<open>(customer_data['timestamp'].max() - customer_data['timestamp'].min()).days\<close>: the whole
  days of the time span, on a \<^verbatim>\<open>datetime64\<close> column. The customers of the loop have at
  least one row each.
\<close>

definition date_range :: "transaction list \<Rightarrow> int" where
  "date_range customer_data =
     (Max (set (map timestamp customer_data)) - Min (set (map timestamp customer_data))) div 86400"

text \<open>The body of the loop over \<^verbatim>\<open>customer_profiles.index\<close> (lines 421-449).\<close>

definition behavioral_features_of :: "table \<Rightarrow> string \<Rightarrow> behavioral_feature" where
  "behavioral_features_of df cid =
     (let customer_data = filter (\<lambda>tx. customer_id tx = cid) (rows df);
          velocity = real (length customer_data) / real_of_int (max (date_range customer_data) 1);
          amount_cv =
            (if mean (map amount customer_data) > 0
             then map_option (\<lambda>sd. sd / mean (map amount customer_data))
                    (sample_std (map amount customer_data))
             else Some 0);
          round_amounts = filter (\<lambda>tx. multiple_of_1000 (amount tx)) customer_data;
          round_amount_percentage = percentage (length round_amounts) (length customer_data);
          hour_variance = sample_std (map (\<lambda>tx. real_of_int (hour_of (timestamp tx))) customer_data)
      in \<lparr>bf_customer_id = cid,
          bf_transaction_count = length customer_data,
          total_amount = sum_list (map amount customer_data),
          avg_amount = mean (map amount customer_data),
          amount_variance = amount_cv,
          velocity = velocity,
          round_amount_percentage = round_amount_percentage,
          location_diversity = nunique (map location customer_data),
          payment_method_diversity = nunique (map payment_method customer_data),
          hour_variance = hour_variance\<rparr>)"

text \<open>The index of \<^verbatim>\<open>groupby('customer_id')\<close>: the distinct customers, sorted.\<close>

definition customer_index :: "table \<Rightarrow> string list" where
  "customer_index df = sort (distinct_values (map customer_id (rows df)))"

definition behavioral_features :: "table \<Rightarrow> behavioral_feature list" where
  "behavioral_features df = map (behavioral_features_of df) (customer_index df)"

definition fillna :: "real option \<Rightarrow> real" where
  "fillna x = (case x of None \<Rightarrow> 0 | Some v \<Rightarrow> v)"

definition analysis_row :: "behavioral_feature \<Rightarrow> real list" where
  "analysis_row f =
     [fillna (amount_variance f), velocity f, round_amount_percentage f,
      real (location_diversity f), real (payment_method_diversity f), fillna (hour_variance f)]"

definition opt_real :: "real option \<Rightarrow> pyval" where
  "opt_real x = (case x of None \<Rightarrow> PNone | Some v \<Rightarrow> PReal v)"

definition feature_record :: "behavioral_feature \<times> int \<Rightarrow> pyval" where
  "feature_record p =
     (let f = fst p
      in PDict [(''customer_id'', PStr (bf_customer_id f)),
                (''transaction_count'', PInt (int (bf_transaction_count f))),
                (''total_amount'', PReal (total_amount f)),
                (''avg_amount'', PReal (avg_amount f)),
                (''amount_variance'', opt_real (amount_variance f)),
                (''velocity'', PReal (velocity f)),
                (''round_amount_percentage'', PReal (round_amount_percentage f)),
                (''location_diversity'', PInt (int (location_diversity f))),
                (''payment_method_diversity'', PInt (int (payment_method_diversity f))),
                (''hour_variance'', opt_real (hour_variance f)),
                (''anomaly_score'', PInt (snd p))])"

definition customers_of :: "behavioral_feature list \<Rightarrow> pyval" where
  "customers_of fs = PList (map (\<lambda>f. PStr (bf_customer_id f)) (take 10 fs))"

text \<open>The rule-based alerts (lines 490-526), on a profile table that is not empty.\<close>

definition behavioral_alerts_of :: "behavioral_feature list \<Rightarrow> anomaly list" where
  "behavioral_alerts_of behavioral_df =
     (if length behavioral_df > 0
      then
       (let high_velocity_customers = filter (\<lambda>f. velocity f > 10) behavioral_df;
            round_amount_customers = filter (\<lambda>f. round_amount_percentage f > 50) behavioral_df;
            low_diversity_customers =
              filter (\<lambda>f. location_diversity f \<le> 1 \<and> payment_method_diversity f \<le> 1 \<and>
                           bf_transaction_count f > 5) behavioral_df
        in (if length high_velocity_customers > 0
            then [\<lparr>anomaly_type = ''high_velocity'', severity = ''HIGH'',
                   description = show_nat (length high_velocity_customers) @
                     '' customers show high transaction velocity'',
                   extra = (''customers'', customers_of high_velocity_customers)\<rparr>]
            else []) @
           (if length round_amount_customers > 0
            then [\<lparr>anomaly_type = ''round_amounts'', severity = ''MEDIUM'',
                   description = show_nat (length round_amount_customers) @
                     '' customers prefer round amounts (possible structuring)'',
                   extra = (''customers'', customers_of round_amount_customers)\<rparr>]
            else []) @
           (if length low_diversity_customers > 0
            then [\<lparr>anomaly_type = ''low_diversity'', severity = ''MEDIUM'',
                   description = show_nat (length low_diversity_customers) @
                     '' customers show low behavioral diversity'',
                   extra = (''customers'', customers_of low_diversity_customers)\<rparr>]
            else []))
      else [])"

text \<open>
  Lines 453-471: with more than five profiles the scaler and the forest of the engine are
  fitted anew on the profiles of this call (missing values as 0), with the seed 42 of the
  constructor, and the profiles scored -1 are the suspicious customers.
\<close>

definition analysis_data :: "table \<Rightarrow> real list list" where
  "analysis_data df = map analysis_row (behavioral_features df)"

definition fitted_scaler :: "('s, 'f) library \<Rightarrow> table \<Rightarrow> 's" where
  "fitted_scaler lib df = scaler_fit lib (analysis_data df)"

definition normalized_data :: "('s, 'f) library \<Rightarrow> table \<Rightarrow> real list list" where
  "normalized_data lib df = scaler_transform lib (fitted_scaler lib df) (analysis_data df)"

definition fitted_forest :: "('s, 'f) library \<Rightarrow> table \<Rightarrow> 'f" where
  "fitted_forest lib df = forest_fit lib 42 (normalized_data lib df)"

definition anomaly_scores :: "('s, 'f) library \<Rightarrow> table \<Rightarrow> int list" where
  "anomaly_scores lib df = forest_predict lib (fitted_forest lib df) (normalized_data lib df)"

definition fit_engine :: "('s, 'f) library \<Rightarrow> ('s, 'f) engine \<Rightarrow> table \<Rightarrow> ('s, 'f) engine" where
  "fit_engine lib self df =
     (if length (behavioral_features df) > 5
      then self\<lparr>scaler := Some (fitted_scaler lib df),
                 isolation_forest := Some (fitted_forest lib df)\<rparr>
      else self)"

definition suspicious_customers :: "('s, 'f) library \<Rightarrow> table \<Rightarrow> (behavioral_feature \<times> int) list" where
  "suspicious_customers lib df =
     (if length (behavioral_features df) > 5
      then filter (\<lambda>p. snd p = - 1) (zip (behavioral_features df) (anomaly_scores lib df))
      else [])"

definition behavioral_recommendations :: "anomaly list \<Rightarrow> string list" where
  "behavioral_recommendations alerts =
     map (\<lambda>a. if severity a = ''HIGH''
               then ''Immediate review required: '' @ description a
               else ''Enhanced monitoring: '' @ description a) alerts @
     (if length alerts = 0 then [''Behavioral patterns appear normal''] else []) @
     [''Implement continuous behavioral monitoring'',
      ''Consider machine learning-based behavior prediction'']"

text \<open>The result of lines 542-560.\<close>

definition behavioral_result :: "('s, 'f) library \<Rightarrow> int \<Rightarrow> table \<Rightarrow> AnalyticsResult" where
  "behavioral_result lib now df =
     \<lparr>analysis_type = ''behavioral_profiling'',
      result_timestamp = now,
      summary =
        [(''total_customers'', PInt (int (length (behavioral_features df)))),
         (''suspicious_customers'', PInt (int (length (suspicious_customers lib df)))),
         (''behavioral_alerts'',
            PInt (int (length (behavioral_alerts_of (behavioral_features df))))),
         (''risk_level'',
            PStr (severity_risk_level (behavioral_alerts_of (behavioral_features df))))],
      detailed_results =
        [(''customer_profiles'',
            if length (behavioral_features df) > 0 then groupby_agg lib ''customer_id'' df
            else PDict []),
         (''suspicious_customers'', PList (map feature_record (suspicious_customers lib df))),
         (''payment_method_stats'', groupby_agg lib ''payment_method'' df),
         (''merchant_category_stats'', groupby_agg lib ''merchant_category'' df),
         (''behavioral_alerts'',
            PList (map anomaly_dict (behavioral_alerts_of (behavioral_features df))))],
      visualizations = [''behavior_clusters'', ''velocity_distribution'', ''diversity_matrix''],
      recommendations =
        behavioral_recommendations (behavioral_alerts_of (behavioral_features df))\<rparr>"

text \<open>
  With the customer column the grouped aggregation of line 411 reads five more columns;
  without it the aggregations of lines 479-488 name the missing \<open>customer_id\<close> column:
  both raise \<^verbatim>\<open>KeyError\<close>. Line 425 subtracts the smallest timestamp of the first
  customer from the largest, cells as they are: on a column of texts that is
  \<^verbatim>\<open>TypeError\<close>, as soon as there is a customer. pandas refuses a score column whose
  length is not the number of profiles (\<^verbatim>\<open>ValueError\<close>, after the engine was fitted).
\<close>

definition behavioral_profiling ::
  "('s, 'f) library \<Rightarrow> int \<Rightarrow> ('s, 'f) engine \<Rightarrow> table \<Rightarrow> ('s, 'f) outcome" where
  "behavioral_profiling lib now self df =
     (if ''customer_id'' \<in> set (columns df)
      then
       (if \<not> list_all (\<lambda>c. c \<in> set (columns df))
                [''amount'', ''payment_method'', ''merchant_category'', ''location'',
                 ''timestamp'']
        then (Inl KeyError, self, df)
        else if timestamp_dtype df = Object \<and> length (customer_index df) > 0
        then (Inl TypeError, self, df)
        else if length (behavioral_features df) > 5 \<and>
                length (anomaly_scores lib df) \<noteq> length (behavioral_features df)
        then (Inl ValueError, fit_engine lib self df, df)
        else (Inr (behavioral_result lib now df), fit_engine lib self df, df))
      else (Inl KeyError, self, df))"

section \<open>Predictive risk scorer (predictive_risk_modeling)\<close>

definition predictive_unusual_hours :: "int list" where
  "predictive_unusual_hours = [0, 1, 2, 3, 22, 23]"

definition predictive_high_risk_locations :: "string list" where
  "predictive_high_risk_locations = [''Border_Area'', ''Unknown'', ''Offshore'']"

definition payment_risk_scores :: "(string \<times> real) list" where
  "payment_risk_scores =
     [(''UPI'', 0.1), (''Card'', 0.2), (''Net_Banking'', 0.3), (''IMPS'', 0.4),
      (''NEFT'', 0.6), (''RTGS'', 0.8), (''Cash_Deposit'', 0.9)]"

definition merchant_risk_scores :: "(string \<times> real) list" where
  "merchant_risk_scores =
     [(''Grocery'', 0.1), (''Food'', 0.1), (''Transport'', 0.2), (''Retail'', 0.2),
      (''Healthcare'', 0.3), (''Education'', 0.3), (''Entertainment'', 0.4),
      (''Investment'', 0.7), (''Real_Estate'', 0.8), (''Gold_Jewelry'', 0.9)]"

text \<open>\<^verbatim>\<open>.map(scores).fillna(0.5)\<close>.\<close>

definition map_fillna :: "(string \<times> real) list \<Rightarrow> string \<Rightarrow> real" where
  "map_fillna scores k = (case map_of scores k of None \<Rightarrow> 0.5 | Some v \<Rightarrow> v)"

text \<open>
  \<^verbatim>\<open>Series.quantile(q)\<close> with linear interpolation between the two closest ranks;
  \<open>NaN\<close> (here \<open>None\<close>) on an empty column.
\<close>

definition quantile :: "real \<Rightarrow> real list \<Rightarrow> real option" where
  "quantile q xs =
     (if xs = [] then None
      else
       (let v = sort xs; pos = (real (length xs) - 1) * q; lo = nat \<lfloor>pos\<rfloor>;
            fraction = pos - real lo
        in if lo + 1 < length xs then Some (v ! lo + fraction * (v ! (lo + 1) - v ! lo))
           else Some (v ! lo)))"

definition flag :: "bool \<Rightarrow> real" where
  "flag b = (if b then 1 else 0)"

record feature_row =
  source_row :: transaction
  is_weekend :: real
  is_unusual_hour :: real
  log_amount :: real
  is_round_amount :: real
  is_high_amount :: real
  is_high_risk_location :: real
  payment_risk_score :: real
  merchant_risk_score :: real

text \<open>
  Lines 577-605 on the copy of the table: the hour and the day of the week are written
  into the copied row, the other features are new columns. A comparison with the \<open>NaN\<close>
  quantile is false.
\<close>

definition engineer_features :: "real option \<Rightarrow> transaction \<Rightarrow> feature_row" where
  "engineer_features q90 tx =
     (let tx' = tx\<lparr>hour := hour_of (timestamp tx), day_of_week := dayofweek_of (timestamp tx)\<rparr>
      in \<lparr>source_row = tx',
          is_weekend = flag (day_of_week tx' \<in> {5, 6}),
          is_unusual_hour = flag (hour tx' \<in> set predictive_unusual_hours),
          log_amount = ln (1 + amount tx),
          is_round_amount = flag (multiple_of_1000 (amount tx)),
          is_high_amount = flag (case q90 of None \<Rightarrow> False | Some q \<Rightarrow> amount tx > q),
          is_high_risk_location = flag (location tx \<in> set predictive_high_risk_locations),
          payment_risk_score = map_fillna payment_risk_scores (payment_method tx),
          merchant_risk_score = map_fillna merchant_risk_scores (merchant_category tx)\<rparr>)"

definition risk_factors :: "feature_row \<Rightarrow> real list" where
  "risk_factors f =
     [is_unusual_hour f, is_round_amount f, is_high_amount f, is_high_risk_location f,
      payment_risk_score f, merchant_risk_score f]"

definition weights :: "real list" where
  "weights = [0.15, 0.10, 0.20, 0.25, 0.15, 0.15]"

text \<open>
  The score starts at 0, the loop over \<^verbatim>\<open>zip(risk_factors, weights)\<close> adds factor times
  weight, and the sum is scaled by 100 (lines 616-621).
\<close>

definition weighted_sum :: "real list \<Rightarrow> real list \<Rightarrow> real" where
  "weighted_sum factors ws = foldl (\<lambda>score p. score + fst p * snd p) 0 (zip factors ws)"

definition predicted_risk_score :: "feature_row \<Rightarrow> real" where
  "predicted_risk_score f = weighted_sum (risk_factors f) weights * 100"

text \<open>
  \<^verbatim>\<open>pd.cut(score, bins=[0, 25, 50, 75, 100], labels=[...])\<close>: intervals open on the left and
  closed on the right, no label outside of them.
\<close>

definition cut_risk_level :: "real \<Rightarrow> string option" where
  "cut_risk_level score =
     (if 0 < score \<and> score \<le> 25 then Some ''LOW''
      else if 25 < score \<and> score \<le> 50 then Some ''MEDIUM''
      else if 50 < score \<and> score \<le> 75 then Some ''HIGH''
      else if 75 < score \<and> score \<le> 100 then Some ''CRITICAL''
      else None)"

definition predicted_risk_level :: "feature_row \<Rightarrow> string option" where
  "predicted_risk_level f = cut_risk_level (predicted_risk_score f)"

definition feature_table :: "table \<Rightarrow> feature_row list" where
  "feature_table df =
     map (engineer_features (quantile 0.9 (map amount (rows df)))) (rows df)"

text \<open>The mean score of every date, by ascending date (line 638).\<close>

definition daily_risk :: "feature_row list \<Rightarrow> real list" where
  "daily_risk fs =
     map (\<lambda>d. mean (map predicted_risk_score
                      (filter (\<lambda>f. date_of (timestamp (source_row f)) = d) fs)))
         (sort (distinct_values (map (\<lambda>f. date_of (timestamp (source_row f))) fs)))"

definition recent_trend_of :: "feature_row list \<Rightarrow> real option" where
  "recent_trend_of fs =
     (if length fs > 10 \<and> length (daily_risk fs) > 3
      then Some (mean (drop (length (daily_risk fs) - 3) (daily_risk fs)) -
                 mean (take 3 (daily_risk fs)))
      else None)"

definition trend_direction_of :: "real option \<Rightarrow> string" where
  "trend_direction_of t =
     (case t of None \<Rightarrow> ''INSUFFICIENT_DATA''
      | Some recent_trend \<Rightarrow>
          if recent_trend > 5 then ''INCREASING''
          else if recent_trend < - 5 then ''DECREASING'' else ''STABLE'')"

text \<open>
  A record of \<^verbatim>\<open>high_risk_transactions\<close>, which is cut out of the feature table at
  line 632, before line 637 adds the \<open>date\<close> column to the feature table: the columns of
  the copy in their order, then the features, the score and the level.
\<close>

definition feature_record_of :: "string list \<Rightarrow> feature_row \<Rightarrow> pyval" where
  "feature_record_of cols f =
     PDict (record_of (cols @ filter (\<lambda>c. c \<notin> set cols) [''hour'', ''day_of_week'']) (source_row f) @
            [(''is_weekend'', PReal (is_weekend f)),
             (''is_unusual_hour'', PReal (is_unusual_hour f)),
             (''log_amount'', PReal (log_amount f)),
             (''is_round_amount'', PReal (is_round_amount f)),
             (''is_high_amount'', PReal (is_high_amount f)),
             (''is_high_risk_location'', PReal (is_high_risk_location f)),
             (''payment_risk_score'', PReal (payment_risk_score f)),
             (''merchant_risk_score'', PReal (merchant_risk_score f)),
             (''predicted_risk_score'', PReal (predicted_risk_score f)),
             (''predicted_risk_level'',
                case predicted_risk_level f of None \<Rightarrow> PNone | Some l \<Rightarrow> PStr l)])"

definition predictive_summary_risk_level :: "nat \<Rightarrow> nat \<Rightarrow> string" where
  "predictive_summary_risk_level n_high n_all =
     (if real n_high / real n_all > 0.1 then ''HIGH''
      else if n_high > 0 then ''MEDIUM'' else ''LOW'')"

definition risk_distribution :: "feature_row list \<Rightarrow> (string \<times> nat) list" where
  "risk_distribution feature_df =
     sort_key (\<lambda>p. - int (snd p))
       (map (\<lambda>l. (l, length (filter (\<lambda>f. predicted_risk_level f = Some l) feature_df)))
            [''LOW'', ''MEDIUM'', ''HIGH'', ''CRITICAL''])"

definition high_risk_rows :: "feature_row list \<Rightarrow> feature_row list" where
  "high_risk_rows feature_df =
     filter (\<lambda>f. predicted_risk_level f \<in> {Some ''HIGH'', Some ''CRITICAL''}) feature_df"

definition future_predictions :: "feature_row list \<Rightarrow> pyval list" where
  "future_predictions feature_df =
     (if trend_direction_of (recent_trend_of feature_df) = ''INCREASING''
      then [PDict [(''timeframe'', PStr ''next_7_days''),
                   (''predicted_risk_increase'',
                      PReal (min (the (recent_trend_of feature_df) * 2) 25)),
                   (''recommendation'', PStr ''Enhanced monitoring recommended'')]]
      else if trend_direction_of (recent_trend_of feature_df) = ''DECREASING''
      then [PDict [(''timeframe'', PStr ''next_7_days''),
                   (''predicted_risk_decrease'',
                      PReal (min (\<bar>the (recent_trend_of feature_df)\<bar> * 2) 25)),
                   (''recommendation'',
                      PStr ''Risk levels improving, maintain current monitoring'')]]
      else [])"

definition predictive_recommendations :: "feature_row list \<Rightarrow> string list" where
  "predictive_recommendations feature_df =
     (if length (high_risk_rows feature_df) > 0
      then [''Immediate attention: '' @ show_nat (length (high_risk_rows feature_df)) @
            '' high/critical risk transactions identified''] else []) @
     (if trend_direction_of (recent_trend_of feature_df) = ''INCREASING''
      then [''Risk trend is increasing - consider implementing additional controls'']
      else []) @
     [''Deploy real-time risk scoring for all incoming transactions'',
      ''Implement automated alerts for transactions scoring above 75'',
      ''Regular model retraining recommended every 30 days'']"

definition model_metrics :: "(string \<times> pyval) list" where
  "model_metrics =
     [(''accuracy'', PReal 0.94), (''precision'', PReal 0.89), (''recall'', PReal 0.92),
      (''f1_score'', PReal 0.90), (''auc_score'', PReal 0.96)]"

text \<open>The result of lines 689-709, on the feature table of a table with rows.\<close>

definition predictive_result :: "int \<Rightarrow> string list \<Rightarrow> feature_row list \<Rightarrow> AnalyticsResult" where
  "predictive_result now cols feature_df =
     \<lparr>analysis_type = ''predictive_risk_modeling'',
      result_timestamp = now,
      summary =
        [(''total_transactions_analyzed'', PInt (int (length feature_df))),
         (''high_risk_count'', PInt (int (length (high_risk_rows feature_df)))),
         (''average_risk_score'', PReal (mean (map predicted_risk_score feature_df))),
         (''risk_trend'', PStr (trend_direction_of (recent_trend_of feature_df))),
         (''model_accuracy'', PReal 0.94),
         (''risk_level'',
            PStr (predictive_summary_risk_level (length (high_risk_rows feature_df))
                    (length feature_df)))],
      detailed_results =
        [(''risk_distribution'', counts_dict (risk_distribution feature_df)),
         (''high_risk_transactions'',
            PList (take 50 (map (feature_record_of cols) (high_risk_rows feature_df)))),
         (''model_metrics'', PDict model_metrics),
         (''future_predictions'', PList (future_predictions feature_df)),
         (''feature_importance'',
            PDict (zip [''is_unusual_hour'', ''is_round_amount'', ''is_high_amount'',
                        ''is_high_risk_location'', ''payment_risk_score'',
                        ''merchant_risk_score''] (map PReal weights)))],
      visualizations = [''risk_distribution'', ''trend_analysis'', ''feature_importance''],
      recommendations = predictive_recommendations feature_df\<rparr>"

text \<open>
  The features are computed on a copy of the table (line 575) and read the columns
  \<open>timestamp\<close>, \<open>amount\<close>, \<open>location\<close>, \<open>payment_method\<close> and \<open>merchant_category\<close>
  (\<^verbatim>\<open>KeyError\<close> when one is missing); the division of line 698 raises
  \<^verbatim>\<open>ZeroDivisionError\<close> on a table without rows.
\<close>

definition predictive_risk_modeling ::
  "('s, 'f) library \<Rightarrow> int \<Rightarrow> ('s, 'f) engine \<Rightarrow> table \<Rightarrow> ('s, 'f) outcome" where
  "predictive_risk_modeling lib now self df =
     (if \<not> list_all (\<lambda>c. c \<in> set (columns df))
             [''timestamp'', ''amount'', ''location'', ''payment_method'', ''merchant_category'']
      then (Inl KeyError, self, df)
      else if length (feature_table df) = 0 then (Inl ZeroDivisionError, self, df)
      else (Inr (predictive_result now (columns df) (feature_table df)), self, df))"

section \<open>Report aggregator (comprehensive_analysis_report)\<close>

text \<open>
  The report calls the five analyzers as methods of the engine object. They are taken as
  a record of methods, so that the report is defined for whatever a method does: raise any
  exception, return any result, change the engine or the table.
\<close>

type_synonym ('s, 'f) analyzer = "('s, 'f) engine \<Rightarrow> table \<Rightarrow> ('s, 'f) outcome"

record ('s, 'f) analyzers =
  m_network_analysis :: "('s, 'f) analyzer"
  m_temporal_pattern_analysis :: "('s, 'f) analyzer"
  m_geographic_clustering_analysis :: "('s, 'f) analyzer"
  m_behavioral_profiling :: "('s, 'f) analyzer"
  m_predictive_risk_modeling :: "('s, 'f) analyzer"

definition the_analyzers :: "('s, 'f) library \<Rightarrow> int \<Rightarrow> ('s, 'f) analyzers" where
  "the_analyzers lib now =
     \<lparr>m_network_analysis = network_analysis lib now,
      m_temporal_pattern_analysis = temporal_pattern_analysis lib now,
      m_geographic_clustering_analysis = geographic_clustering_analysis lib now,
      m_behavioral_profiling = behavioral_profiling lib now,
      m_predictive_risk_modeling = predictive_risk_modeling lib now\<rparr>"

text \<open>
  \<^verbatim>\<open>try: results[key] = method(transactions_df)  except Exception as e: print(...)\<close>:
  the result is stored under the key, an exception stores nothing; the engine and the table
  stay as the method left them.
\<close>

type_synonym ('s, 'f) run_state = "(string \<times> AnalyticsResult) list \<times> ('s, 'f) engine \<times> table"

definition try_module ::
  "string \<Rightarrow> ('s, 'f) analyzer \<Rightarrow> ('s, 'f) run_state \<Rightarrow> ('s, 'f) run_state" where
  "try_module key method st =
     (case st of (results, self, df) \<Rightarrow>
        (case method self df of
           (Inl e, self', df') \<Rightarrow> (results, self', df')
         | (Inr r, self', df') \<Rightarrow> (results @ [(key, r)], self', df')))"

definition run_modules :: "('s, 'f) analyzers \<Rightarrow> ('s, 'f) engine \<Rightarrow> table \<Rightarrow> ('s, 'f) run_state" where
  "run_modules an self df =
     try_module ''predictive'' (m_predictive_risk_modeling an)
       (try_module ''behavioral'' (m_behavioral_profiling an)
          (try_module ''geographic'' (m_geographic_clustering_analysis an)
             (try_module ''temporal'' (m_temporal_pattern_analysis an)
                (try_module ''network'' (m_network_analysis an) ([], self, df)))))"

text \<open>
  \<^verbatim>\<open>{'LOW': 25, 'MEDIUM': 50, 'HIGH': 75, 'CRITICAL': 100}.get(risk_level, 50)\<close>: a lookup
  with an unhashable key (a list, a dictionary) raises \<^verbatim>\<open>TypeError\<close>.
\<close>

definition risk_score_table :: "(string \<times> real) list" where
  "risk_score_table = [(''LOW'', 25), (''MEDIUM'', 50), (''HIGH'', 75), (''CRITICAL'', 100)]"

definition risk_score_of :: "pyval \<Rightarrow> py_error + real" where
  "risk_score_of risk_level =
     (case risk_level of
        PStr l \<Rightarrow> Inr (case map_of risk_score_table l of None \<Rightarrow> 50 | Some v \<Rightarrow> v)
      | PList xs \<Rightarrow> Inl TypeError
      | PDict kvs \<Rightarrow> Inl TypeError
      | _ \<Rightarrow> Inr 50)"

text \<open>The loop over \<^verbatim>\<open>results.items()\<close> (lines 761-768).\<close>

fun collect_risk_scores :: "(string \<times> AnalyticsResult) list \<Rightarrow> py_error + real list" where
  "collect_risk_scores [] = Inr []"
| "collect_risk_scores (kr # rest) =
     (case map_of (summary (snd kr)) ''risk_level'' of
        None \<Rightarrow> collect_risk_scores rest
      | Some risk_level \<Rightarrow>
          (case risk_score_of risk_level of
             Inl e \<Rightarrow> Inl e
           | Inr risk_score \<Rightarrow>
               (case collect_risk_scores rest of
                  Inl e \<Rightarrow> Inl e
                | Inr scores \<Rightarrow> Inr (risk_score # scores))))"

definition py_truediv :: "real \<Rightarrow> real \<Rightarrow> py_error + real" where
  "py_truediv a b = (if b = 0 then Inl ZeroDivisionError else Inr (a / b))"

definition bucket_risk_level :: "real \<Rightarrow> string" where
  "bucket_risk_level overall_risk_score =
     (if overall_risk_score \<ge> 75 then ''CRITICAL''
      else if overall_risk_score \<ge> 50 then ''HIGH''
      else if overall_risk_score \<ge> 25 then ''MEDIUM''
      else ''LOW'')"

text \<open>Lines 770-783.\<close>

definition overall_risk :: "real list \<Rightarrow> py_error + real \<times> string" where
  "overall_risk overall_risk_scores =
     (if overall_risk_scores \<noteq> []
      then (case py_truediv (sum_list overall_risk_scores) (real (length overall_risk_scores)) of
              Inl e \<Rightarrow> Inl e
            | Inr overall_risk_score \<Rightarrow>
                Inr (overall_risk_score, bucket_risk_level overall_risk_score))
      else Inr (0, ''UNKNOWN''))"

text \<open>\<^verbatim>\<open>rec.lower()\<close> on ASCII letters and \<^verbatim>\<open>word in text\<close>.\<close>

definition lower_char :: "char \<Rightarrow> char" where
  "lower_char c =
     (if 65 \<le> (of_char c :: nat) \<and> (of_char c :: nat) \<le> 90
      then char_of ((of_char c :: nat) + 32) else c)"

definition lower :: "string \<Rightarrow> string" where
  "lower s = map lower_char s"

fun starts_with :: "string \<Rightarrow> string \<Rightarrow> bool" where
  "starts_with [] s = True"
| "starts_with (w # ws) [] = False"
| "starts_with (w # ws) (c # cs) = (w = c \<and> starts_with ws cs)"

fun contains :: "string \<Rightarrow> string \<Rightarrow> bool" where
  "contains w [] = starts_with w []"
| "contains w (c # cs) = (starts_with w (c # cs) \<or> contains w cs)"

record executive_summary =
  analysis_timestamp :: int
  total_transactions_analyzed :: nat
  analyses_completed :: nat
  overall_risk_score :: real
  overall_risk_level :: string
  total_recommendations :: nat
  priority_actions :: "string list"

record report =
  module_results :: "(string \<times> AnalyticsResult) list"
  summary_of_report :: executive_summary

definition comprehensive_analysis_report ::
  "('s, 'f) analyzers \<Rightarrow> int \<Rightarrow> ('s, 'f) engine \<Rightarrow> table \<Rightarrow>
   (py_error + report) \<times> ('s, 'f) engine \<times> table" where
  "comprehensive_analysis_report an now self0 df0 =
     (case run_modules an self0 df0 of (results, self, df) \<Rightarrow>
        (case collect_risk_scores results of
           Inl e \<Rightarrow> (Inl e, self, df)
         | Inr overall_risk_scores \<Rightarrow>
            (case overall_risk overall_risk_scores of
               Inl e \<Rightarrow> (Inl e, self, df)
             | Inr (score, level) \<Rightarrow>
                (let total_recommendations = concat (map (\<lambda>kr. recommendations (snd kr)) results)
                 in (Inr \<lparr>module_results = results,
                          summary_of_report =
                            \<lparr>analysis_timestamp = now,
                             total_transactions_analyzed = length (rows df),
                             analyses_completed = length results,
                             overall_risk_score = score,
                             overall_risk_level = level,
                             total_recommendations = length total_recommendations,
                             priority_actions =
                               take 5 (filter (\<lambda>rec. contains ''immediate'' (lower rec) \<or>
                                                      contains ''priority'' (lower rec))
                                              total_recommendations)\<rparr>\<rparr>,
                     self, df)))))"

section \<open>Sample data\<close>

text \<open>
  A transaction as \<^verbatim>\<open>demonstrate_advanced_analytics\<close> builds it: identifier, customer,
  merchant, amount, payment method, merchant category, location and timestamp; the
  calendar columns are not filled in.
\<close>

definition sample_transaction ::
  "string \<Rightarrow> string \<Rightarrow> string \<Rightarrow> real \<Rightarrow> string \<Rightarrow> string \<Rightarrow> string \<Rightarrow> int \<Rightarrow> transaction" where
  "sample_transaction tid cid mname amt pm cat loc ts =
     \<lparr>transaction_id = tid, customer_id = cid, account_number = [], merchant_name = mname,
      merchant_category = cat, payment_method = pm, amount = amt, location = loc,
      timestamp = ts, hour = 0, day_of_week = 0, day_of_month = 0, month = 0\<rparr>"

definition all_columns :: "string list" where
  "all_columns =
     [''transaction_id'', ''customer_id'', ''merchant_name'', ''merchant_category'',
      ''payment_method'', ''amount'', ''location'', ''timestamp'']"


section \<open>Notions used to state the properties\<close>

text \<open>
  A transaction connects the pair \<open>(u, v)\<close> when \<open>u\<close> is its source key and \<open>v\<close> its
  target key; \<open>aggregated\<close> is the attribute dictionary that a list of transactions of one
  pair should leave on their edge.
\<close>

definition connects :: "(string \<Rightarrow> int) \<Rightarrow> string list \<Rightarrow> string \<Rightarrow> string \<Rightarrow> transaction \<Rightarrow> bool" where
  "connects h cols u v tx = (source_key h cols tx = u \<and> target_key h cols tx = v)"

definition aggregated :: "int \<Rightarrow> string list \<Rightarrow> transaction list \<Rightarrow> edge_data" where
  "aggregated now cols txs =
     \<lparr>weight = sum_list (map (amount_of cols) txs), transaction_count = length txs,
      timestamps = map (timestamp_of now cols) txs\<rparr>"

text \<open>
  The invariant of the loop of \<open>build_graph\<close> after the transactions \<open>txs\<close>: no pair has
  two entries, and the entry of a pair aggregates the transactions that connect it.
\<close>

definition graph_inv :: "(string \<Rightarrow> int) \<Rightarrow> int \<Rightarrow> string list \<Rightarrow> transaction list \<Rightarrow> digraph \<Rightarrow> bool" where
  "graph_inv h now cols txs G =
     (distinct (map fst (edges G)) \<and>
      (\<forall>u v. map_of (edges G) (u, v) =
         (let m = filter (connects h cols u v) txs
          in if m = [] then None else Some (aggregated now cols m))))"

text \<open>Reading a dictionary value and the summary of an outcome (nothing when it raised).\<close>

definition lookup :: "pyval \<Rightarrow> string \<Rightarrow> pyval option" where
  "lookup d k = (case d of PDict kvs \<Rightarrow> map_of kvs k | _ \<Rightarrow> None)"

definition summary_value :: "('s, 'f) outcome \<Rightarrow> string \<Rightarrow> pyval option" where
  "summary_value out k = (case fst out of Inl e \<Rightarrow> None | Inr r \<Rightarrow> map_of (summary r) k)"

text \<open>
  Stand-ins for the external libraries, to evaluate the analyzers on sample tables. No
  property below depends on what they return.
\<close>

definition sample_library :: "(unit, unit) library" where
  "sample_library =
     \<lparr>py_hash = (\<lambda>s. int (length s)),
      average_clustering = (\<lambda>G. 0),
      betweenness_centrality = (\<lambda>G v. 0),
      pagerank = (\<lambda>G v. 1 / real (length (nodes G))),
      groupby_agg = (\<lambda>c df. PDict []),
      format_1f = (\<lambda>x. show_int \<lfloor>x\<rfloor>),
      scaler_fit = (\<lambda>X. ()),
      scaler_transform = (\<lambda>s X. X),
      forest_fit = (\<lambda>seed X. ()),
      forest_predict = (\<lambda>f X. map (\<lambda>x. 1) X)\<rparr>"

text \<open>Three customers and one shared merchant.\<close>

definition star_table :: table where
  "star_table =
     \<lparr>columns = all_columns,
      rows = [sample_transaction ''T1'' ''C1'' ''M'' 100 ''UPI'' ''Food'' ''Delhi'' 10,
              sample_transaction ''T2'' ''C2'' ''M'' 200 ''UPI'' ''Food'' ''Delhi'' 20,
              sample_transaction ''T3'' ''C3'' ''M'' 300 ''UPI'' ''Food'' ''Delhi'' 30],
      timestamp_dtype = Datetime64\<rparr>"


text \<open>
  A high-value round transfer at 02:00 from a border area, paid by RTGS to a jeweller,
  next to an ordinary purchase.
\<close>

definition scenario_table :: table where
  "scenario_table =
     \<lparr>columns = all_columns,
      rows = [sample_transaction ''T1'' ''C1'' ''M1'' 100000 ''RTGS'' ''Gold_Jewelry'' ''Border_Area'' 7200,
              sample_transaction ''T2'' ''C2'' ''M2'' 1000 ''UPI'' ''Food'' ''Delhi'' 50000],
      timestamp_dtype = Datetime64\<rparr>"

text \<open>
  The risk levels that the stored results carry, in the order of the results; a value is
  hashable when it can be the key of a dictionary lookup; the ordinal score of a level.
\<close>

definition reported_levels :: "(string \<times> AnalyticsResult) list \<Rightarrow> pyval list" where
  "reported_levels results =
     List.map_filter (\<lambda>kr. map_of (summary (snd kr)) ''risk_level'') results"

definition hashable :: "pyval \<Rightarrow> bool" where
  "hashable v = (case v of PList xs \<Rightarrow> False | PDict kvs \<Rightarrow> False | _ \<Rightarrow> True)"

definition ordinal_score :: "pyval \<Rightarrow> real" where
  "ordinal_score v =
     (if v = PStr ''LOW'' then 25 else if v = PStr ''MEDIUM'' then 50
      else if v = PStr ''HIGH'' then 75 else if v = PStr ''CRITICAL'' then 100 else 50)"

text \<open>What an outcome leaves in the results: its result under the key, or nothing.\<close>

definition stored :: "string \<Rightarrow> ('s, 'f) outcome \<Rightarrow> (string \<times> AnalyticsResult) list" where
  "stored key out = (case fst out of Inl e \<Rightarrow> [] | Inr r \<Rightarrow> [(key, r)])"

text \<open>
  An analyzer that raises, and a table with the columns customer_id, merchant_name and
  amount only. The rows of the model carry numbers as amounts; on such a frame whose amount
  column holds text instead, the network analyzer raises in the edge weights, which the
  method \<open>raising TypeError\<close> stands for.
\<close>

definition raising :: "py_error \<Rightarrow> ('s, 'f) analyzer" where
  "raising e self df = (Inl e, self, df)"

definition no_location_table :: table where
  "no_location_table =
     \<lparr>columns = [''customer_id'', ''merchant_name'', ''amount''],
      rows = [sample_transaction ''T1'' ''A'' ''M'' 5 [] [] [] 0,
              sample_transaction ''T2'' ''A'' ''M'' 7 [] [] [] 0],
      timestamp_dtype = Object\<rparr>"

text \<open>
  The outcomes of the five analyzers in the order of the report, each called on the engine
  and the table that the one before left.
\<close>

definition module_outcomes ::
  "('s, 'f) analyzers \<Rightarrow> ('s, 'f) engine \<Rightarrow> table \<Rightarrow> ('s, 'f) outcome list" where
  "module_outcomes an self df =
     (let o1 = m_network_analysis an self df;
          o2 = m_temporal_pattern_analysis an (fst (snd o1)) (snd (snd o1));
          o3 = m_geographic_clustering_analysis an (fst (snd o2)) (snd (snd o2));
          o4 = m_behavioral_profiling an (fst (snd o3)) (snd (snd o3));
          o5 = m_predictive_risk_modeling an (fst (snd o4)) (snd (snd o4))
      in [o1, o2, o3, o4, o5])"

definition module_keys :: "string list" where
  "module_keys = [''network'', ''temporal'', ''geographic'', ''behavioral'', ''predictive'']"

text \<open>The risk levels that an analyzer writes into its summary.\<close>

definition low_medium_high :: "pyval option set" where
  "low_medium_high = {Some (PStr ''LOW''), Some (PStr ''MEDIUM''), Some (PStr ''HIGH'')}"


text \<open>The rows of one customer: \<^verbatim>\<open>customer_data\<close> in the loop of lines 421-449.\<close>

definition customer_data :: "table \<Rightarrow> string \<Rightarrow> transaction list" where
  "customer_data df cid = filter (\<lambda>tx. customer_id tx = cid) (rows df)"

text \<open>
  Two outcomes have the same findings when both raised the same exception or both returned
  results with the same summary and the same detailed results (the timestamps may differ).
  \<open>called_again\<close> is the outcome of the second of two calls, the second one made at
  \<open>now2\<close> on the engine and the table that the first one, made at \<open>now1\<close>, left.
\<close>

definition same_findings :: "('s, 'f) outcome \<Rightarrow> ('s, 'f) outcome \<Rightarrow> bool" where
  "same_findings a b =
     (case fst a of
        Inl e \<Rightarrow> fst b = Inl e
      | Inr r \<Rightarrow> (case fst b of
                    Inl e \<Rightarrow> False
                  | Inr r' \<Rightarrow> summary r' = summary r \<and> detailed_results r' = detailed_results r))"

definition called_again ::
  "(int \<Rightarrow> ('s, 'f) analyzer) \<Rightarrow> int \<Rightarrow> int \<Rightarrow> ('s, 'f) engine \<Rightarrow> table \<Rightarrow> ('s, 'f) outcome" where
  "called_again analyze now1 now2 self df =
     (let out = analyze now1 self df in analyze now2 (fst (snd out)) (snd (snd out)))"

text \<open>Six customers, enough for the outlier model to be fitted.\<close>

definition six_customers_table :: table where
  "six_customers_table =
     \<lparr>columns = all_columns,
      rows = [sample_transaction ''T1'' ''C1'' ''M1'' 1000 ''UPI'' ''Food'' ''Delhi'' 3600,
              sample_transaction ''T2'' ''C2'' ''M1'' 2500 ''Card'' ''Retail'' ''Mumbai'' 7200,
              sample_transaction ''T3'' ''C3'' ''M2'' 300 ''UPI'' ''Food'' ''Pune'' 90000,
              sample_transaction ''T4'' ''C4'' ''M2'' 4000 ''NEFT'' ''Investment'' ''Unknown'' 90100,
              sample_transaction ''T5'' ''C5'' ''M3'' 750 ''IMPS'' ''Transport'' ''Delhi'' 180000,
              sample_transaction ''T6'' ''C6'' ''M3'' 60 ''UPI'' ''Grocery'' ''Chennai'' 200000],
      timestamp_dtype = Datetime64\<rparr>"




text \<open>
  The elapsed-day-span of a customer's transactions, said without the code: \<open>days\<close> is
  the number of whole days, of 86400 seconds each, that lie between the earliest and the
  latest of their timestamps.
\<close>

definition elapsed_days :: "transaction list \<Rightarrow> int \<Rightarrow> bool" where
  "elapsed_days txs days =
     (\<exists>t_first \<in> set (map timestamp txs). \<exists>t_last \<in> set (map timestamp txs).
        (\<forall>t \<in> set (map timestamp txs). t_first \<le> t \<and> t \<le> t_last) \<and>
        86400 * days \<le> t_last - t_first \<and> t_last - t_first < 86400 * (days + 1))"

text \<open>
  A customer with six transactions, the first and the last of them three days apart, and
  a customer with one transaction.
\<close>

definition three_day_table :: table where
  "three_day_table =
     \<lparr>columns = all_columns,
      rows = [sample_transaction ''T1'' ''C1'' ''M1'' 120 ''UPI'' ''Food'' ''Delhi'' 90000,
              sample_transaction ''T2'' ''C1'' ''M1'' 80 ''UPI'' ''Food'' ''Delhi'' 3600,
              sample_transaction ''T3'' ''C2'' ''M2'' 500 ''Card'' ''Retail'' ''Pune'' 40000,
              sample_transaction ''T4'' ''C1'' ''M2'' 45 ''UPI'' ''Food'' ''Delhi'' 262800,
              sample_transaction ''T5'' ''C1'' ''M1'' 300 ''Card'' ''Retail'' ''Delhi'' 100000,
              sample_transaction ''T6'' ''C1'' ''M3'' 60 ''UPI'' ''Grocery'' ''Delhi'' 180000,
              sample_transaction ''T7'' ''C1'' ''M1'' 75 ''UPI'' ''Food'' ''Delhi'' 200000],
      timestamp_dtype = Datetime64\<rparr>"

section \<open>The entity graph has one edge per pair\<close>

lemma has_edge_map_of: "has_edge G u v \<longleftrightarrow> map_of (edges G) (u, v) \<noteq> None"
  by (simp add: has_edge_def map_of_eq_None_iff)

lemma map_fst_update_edge: "map fst (edges (update_edge G u v a ts)) = map fst (edges G)"
  by (simp add: update_edge_def case_prod_unfold comp_def)

lemma map_of_update_edge:
  "map_of (edges (update_edge G u v a ts)) k =
     (if k = (u, v) then map_option (accumulate a ts) (map_of (edges G) k) else map_of (edges G) k)"
proof -
  have "map_of (map (\<lambda>(k, d). if k = (u, v) then (k, accumulate a ts d) else (k, d)) es) k =
     (if k = (u, v) then map_option (accumulate a ts) (map_of es k) else map_of es k)" for es
  proof (induction es)
    case Nil
    show ?case by simp
  next
    case (Cons e es)
    obtain k' d where e: "e = (k', d)" by (cases e)
    show ?case
      by (cases "k = (u, v)"; cases "k' = k") (use Cons e in simp_all)
  qed
  then show ?thesis by (simp add: update_edge_def)
qed

lemma map_of_add_edge:
  "\<not> has_edge G u v \<Longrightarrow>
   map_of (edges (add_edge G u v d)) k = (if k = (u, v) then Some d else map_of (edges G) k)"
  by (auto simp: add_edge_def has_edge_map_of map_add_def split: option.splits)

lemma distinct_add_edge:
  "\<not> has_edge G u v \<Longrightarrow> distinct (map fst (edges G)) \<Longrightarrow> distinct (map fst (edges (add_edge G u v d)))"
  by (simp add: add_edge_def has_edge_def)

lemma accumulate_aggregated:
  "accumulate (amount_of cols tx) (timestamp_of now cols tx) (aggregated now cols txs) =
   aggregated now cols (txs @ [tx])"
  by (simp add: accumulate_def aggregated_def)

lemma graph_inv_step:
  assumes "graph_inv h now cols txs G"
  shows "graph_inv h now cols (txs @ [tx]) (add_transaction h now cols G tx)"
proof -
  let ?s = "source_key h cols tx" and ?t = "target_key h cols tx"
  have d: "distinct (map fst (edges G))"
    and m: "\<And>u v. map_of (edges G) (u, v) =
         (let m = filter (connects h cols u v) txs
          in if m = [] then None else Some (aggregated now cols m))"
    using assms by (auto simp: graph_inv_def)
  have c: "connects h cols u v tx \<longleftrightarrow> (u, v) = (?s, ?t)" for u v
    by (auto simp: connects_def)
  show ?thesis
  proof (cases "has_edge G ?s ?t")
    case True
    then have ne: "filter (connects h cols ?s ?t) txs \<noteq> []"
      using m[of ?s ?t] by (auto simp: has_edge_map_of Let_def split: if_splits)
    show ?thesis
      unfolding graph_inv_def add_transaction_def Let_def
      using True d ne
      by (auto simp: map_fst_update_edge map_of_update_edge m Let_def c accumulate_aggregated)
  next
    case False
    then have e: "filter (connects h cols ?s ?t) txs = []"
      using m[of ?s ?t] by (auto simp: has_edge_map_of Let_def split: if_splits)
    show ?thesis
      unfolding graph_inv_def add_transaction_def Let_def
      using False d e
      by (auto simp: distinct_add_edge map_of_add_edge m Let_def c aggregated_def)
  qed
qed

lemma graph_inv_foldl:
  "graph_inv h now cols txs G \<Longrightarrow>
   graph_inv h now cols (txs @ rest) (foldl (add_transaction h now cols) G rest)"
proof (induction rest arbitrary: txs G)
  case Nil
  then show ?case by simp
next
  case (Cons tx rest)
  from Cons.IH[OF graph_inv_step[OF Cons.prems, of tx]] show ?case by simp
qed

lemma graph_inv_build: "graph_inv h now (columns df) (rows df) (build_graph h now df)"
proof -
  have "graph_inv h now (columns df) [] empty_graph"
    by (simp add: graph_inv_def empty_graph_def)
  from graph_inv_foldl[OF this, of "rows df"] show ?thesis
    by (simp add: build_graph_def)
qed

lemma count_distinct_key:
  "distinct (map fst es) \<Longrightarrow> length (filter (\<lambda>e. fst e = k) es) = (if map_of es k = None then 0 else 1)"
proof (induction es)
  case Nil
  then show ?case by simp
next
  case (Cons e es)
  then show ?case
    by (cases e) (auto simp: map_of_eq_None_iff filter_empty_conv image_iff)
qed

text \<open>
  C7. In the graph built by \<open>network_analysis\<close>, every pair \<open>(u, v)\<close> has exactly one
  edge when some transaction of the table connects it and none otherwise, whatever the
  number of such transactions; the edge carries the sum of their amounts, their count and
  their timestamps in the order of the table.
\<close>

theorem one_edge_per_pair:
  "let G = build_graph h now df;
       m = filter (connects h (columns df) u v) (rows df)
   in length (filter (\<lambda>e. fst e = (u, v)) (edges G)) = (if m = [] then 0 else 1) \<and>
      (m \<noteq> [] \<longrightarrow> map_of (edges G) (u, v) = Some (aggregated now (columns df) m))"
  using graph_inv_build[of h now df]
  by (auto simp: graph_inv_def Let_def count_distinct_key)


theorem one_edge_per_pair_witness:
  "let df = \<lparr>columns = all_columns,
              rows = [sample_transaction ''T1'' ''A'' ''M'' 100 ''UPI'' ''Food'' ''Delhi'' 10,
                      sample_transaction ''T2'' ''A'' ''M'' 50 ''UPI'' ''Food'' ''Delhi'' 20,
                      sample_transaction ''T3'' ''B'' ''M'' 7 ''UPI'' ''Food'' ''Delhi'' 30],
              timestamp_dtype = Datetime64\<rparr>;
       G = build_graph (\<lambda>s. 0) 0 df
   in length (filter (\<lambda>e. fst e = (''A'', ''M'')) (edges G)) = 1 \<and>
      map_of (edges G) (''A'', ''M'') =
        Some \<lparr>weight = 150, transaction_count = 2, timestamps = [10, 20]\<rparr>"
  using one_edge_per_pair [of "\<lambda>s. 0" 0
      "\<lparr>columns = all_columns,
        rows = [sample_transaction ''T1'' ''A'' ''M'' 100 ''UPI'' ''Food'' ''Delhi'' 10,
                sample_transaction ''T2'' ''A'' ''M'' 50 ''UPI'' ''Food'' ''Delhi'' 20,
                sample_transaction ''T3'' ''B'' ''M'' 7 ''UPI'' ''Food'' ''Delhi'' 30],
        timestamp_dtype = Datetime64\<rparr>"
      "''A''" "''M''"]
  by (simp add: Let_def connects_def aggregated_def source_key_def target_key_def
        amount_of_def timestamp_of_def all_columns_def sample_transaction_def)

section \<open>The star of three customers\<close>

lemma star_graph:
  assumes "''customer_id'' \<in> set (columns df)" "''merchant_name'' \<in> set (columns df)"
    and "rows df = [t1, t2, t3]"
    and "merchant_name t1 = m" "merchant_name t2 = m" "merchant_name t3 = m"
    and "distinct [customer_id t1, customer_id t2, customer_id t3, m]"
  shows "nodes (build_graph h now df) = [customer_id t1, m, customer_id t2, customer_id t3]"
    and "map fst (edges (build_graph h now df)) =
           [(customer_id t1, m), (customer_id t2, m), (customer_id t3, m)]"
proof -
  define c1 c2 c3 where "c1 = customer_id t1" and "c2 = customer_id t2" and "c3 = customer_id t3"
  have ne: "c1 \<noteq> c2" "c1 \<noteq> c3" "c2 \<noteq> c3" "c1 \<noteq> m" "c2 \<noteq> m" "c3 \<noteq> m"
    using assms(7) by (auto simp: c1_def c2_def c3_def)
  have k: "source_key h (columns df) t1 = c1" "source_key h (columns df) t2 = c2"
    "source_key h (columns df) t3 = c3" "target_key h (columns df) t1 = m"
    "target_key h (columns df) t2 = m" "target_key h (columns df) t3 = m"
    using assms(1,2,4,5,6) by (simp_all add: source_key_def target_key_def c1_def c2_def c3_def)
  have "nodes (build_graph h now df) = [c1, m, c2, c3] \<and>
        map fst (edges (build_graph h now df)) = [(c1, m), (c2, m), (c3, m)]"
    using ne
    by (simp add: build_graph_def assms(3) add_transaction_def Let_def k
          has_edge_def add_edge_def add_node_def empty_graph_def)
  then show "nodes (build_graph h now df) = [customer_id t1, m, customer_id t2, customer_id t3]"
    and "map fst (edges (build_graph h now df)) =
           [(customer_id t1, m), (customer_id t2, m), (customer_id t3, m)]"
    by (simp_all add: c1_def c2_def c3_def)
qed

lemma star_communities:
  assumes "''customer_id'' \<in> set (columns df)" "''merchant_name'' \<in> set (columns df)"
    and "rows df = [t1, t2, t3]"
    and "merchant_name t1 = m" "merchant_name t2 = m" "merchant_name t3 = m"
    and "distinct [customer_id t1, customer_id t2, customer_id t3, m]"
  shows "summary_value (network_analysis lib now self df) ''communities_detected'' = Some (PInt 1)"
    and "\<exists>metrics. summary_value (network_analysis lib now self df) ''network_metrics'' = Some metrics \<and>
            lookup metrics ''total_nodes'' = Some (PInt 4)"
proof -
  let ?G = "build_graph (py_hash lib) now df"
  note g = star_graph[OF assms, of "py_hash lib" now]
  have n: "number_of_nodes ?G = 4" by (simp add: number_of_nodes_def g)
  have "connected_components ?G = [[customer_id t1, m, customer_id t2, customer_id t3]]"
    using assms(7) by (auto simp add: connected_components_def g join_components_def Let_def)
  then have l: "length (large_communities ?G) = 1"
    by (simp add: large_communities_def n)
  show "summary_value (network_analysis lib now self df) ''communities_detected'' = Some (PInt 1)"
    using l by (simp add: summary_value_def network_analysis_def network_result_def)
  show "\<exists>metrics. summary_value (network_analysis lib now self df) ''network_metrics'' = Some metrics \<and>
            lookup metrics ''total_nodes'' = Some (PInt 4)"
    using n
    by (simp add: summary_value_def network_analysis_def network_result_def network_metrics_def
          lookup_def)
qed

lemma star_table_facts:
  "''customer_id'' \<in> set (columns star_table)" "''merchant_name'' \<in> set (columns star_table)"
  "rows star_table =
     [sample_transaction ''T1'' ''C1'' ''M'' 100 ''UPI'' ''Food'' ''Delhi'' 10,
      sample_transaction ''T2'' ''C2'' ''M'' 200 ''UPI'' ''Food'' ''Delhi'' 20,
      sample_transaction ''T3'' ''C3'' ''M'' 300 ''UPI'' ''Food'' ''Delhi'' 30]"
  "distinct [customer_id (sample_transaction ''T1'' ''C1'' ''M'' 100 ''UPI'' ''Food'' ''Delhi'' 10),
             customer_id (sample_transaction ''T2'' ''C2'' ''M'' 200 ''UPI'' ''Food'' ''Delhi'' 20),
             customer_id (sample_transaction ''T3'' ''C3'' ''M'' 300 ''UPI'' ''Food'' ''Delhi'' 30),
             ''M'']"
  by (simp_all add: star_table_def all_columns_def sample_transaction_def)

lemma sample_merchant [simp]: "merchant_name (sample_transaction t c m a p g l ts) = m"
  by (simp add: sample_transaction_def)

text \<open>
  C2. Three transactions of three distinct customers with one shared merchant (whose name
  is none of the customer identifiers) give a graph of 4 nodes that is a single connected
  component of 4 members; 4 exceeds 3, so \<open>communities_detected\<close> is 1, not 0.
\<close>

theorem star_of_three_customers:
  assumes "''customer_id'' \<in> set (columns df)" "''merchant_name'' \<in> set (columns df)"
    and "rows df = [t1, t2, t3]"
    and "merchant_name t1 = m" "merchant_name t2 = m" "merchant_name t3 = m"
    and "distinct [customer_id t1, customer_id t2, customer_id t3, m]"
  shows "summary_value (network_analysis lib now self df) ''communities_detected'' = Some (PInt 1) \<and>
         (\<exists>metrics. summary_value (network_analysis lib now self df) ''network_metrics'' = Some metrics \<and>
            lookup metrics ''total_nodes'' = Some (PInt 4))"
  by (intro conjI star_communities[OF assms])

theorem star_of_three_customers_witness:
  "summary_value (network_analysis sample_library 0 init_engine star_table) ''communities_detected''
     = Some (PInt 1) \<and>
   (\<exists>metrics. summary_value (network_analysis sample_library 0 init_engine star_table)
        ''network_metrics'' = Some metrics \<and> lookup metrics ''total_nodes'' = Some (PInt 4))"
  by (rule star_of_three_customers [OF star_table_facts(1,2,3) _ _ _ star_table_facts(4)]) simp_all

theorem star_of_three_customers_counterexample:
  "summary_value (network_analysis sample_library 0 init_engine star_table) ''communities_detected''
     \<noteq> Some (PInt 0)"
proof -
  have "summary_value (network_analysis sample_library 0 init_engine star_table)
          ''communities_detected'' = Some (PInt 1)"
    by (rule star_communities(1) [OF star_table_facts(1,2,3) _ _ _ star_table_facts(4)]) simp_all
  then show ?thesis by simp
qed



section \<open>The composite risk score\<close>

lemma weighted_sum_six:
  "weighted_sum [a, b, c, d, e, f] weights =
     a * 0.15 + b * 0.10 + c * 0.20 + d * 0.25 + e * 0.15 + f * 0.15"
  by (simp add: weighted_sum_def weights_def)

text \<open>
  C3. A transaction whose six risk factors are 1, 1, 1, 1, 0.8 and 0.9 gets the score
  \<open>(0.15 + 0.10 + 0.20 + 0.25 + 0.8 * 0.15 + 0.9 * 0.15) * 100 = 95.5\<close> (not 82.5) and the
  level CRITICAL of the bin \<open>(75, 100]\<close>.
\<close>

theorem scenario_score:
  assumes "is_unusual_hour f = 1" "is_round_amount f = 1" "is_high_amount f = 1"
    "is_high_risk_location f = 1" "payment_risk_score f = 0.8" "merchant_risk_score f = 0.9"
  shows "predicted_risk_score f = 95.5 \<and> predicted_risk_level f = Some ''CRITICAL''"
proof -
  have s: "predicted_risk_score f = 95.5"
    using assms by (simp add: predicted_risk_score_def risk_factors_def weighted_sum_six)
  then show ?thesis by (simp add: predicted_risk_level_def cut_risk_level_def)
qed

lemma scenario_q90: "quantile 0.9 (map amount (rows scenario_table)) = Some 90100"
  by (simp add: quantile_def scenario_table_def sample_transaction_def Let_def)

lemma scenario_factors:
  "risk_factors (hd (feature_table scenario_table)) = [1, 1, 1, 1, 0.8, 0.9]"
  unfolding feature_table_def scenario_q90
  by (simp add: scenario_table_def sample_transaction_def engineer_features_def risk_factors_def
        Let_def flag_def hour_of_def predictive_unusual_hours_def multiple_of_1000_def
        predictive_high_risk_locations_def map_fillna_def payment_risk_scores_def
        merchant_risk_scores_def)

theorem scenario_score_counterexample:
  "risk_factors (hd (feature_table scenario_table)) = [1, 1, 1, 1, 0.8, 0.9] \<and>
   predicted_risk_score (hd (feature_table scenario_table)) \<noteq> 82.5"
  using scenario_factors
  by (simp add: predicted_risk_score_def weighted_sum_six)

theorem scenario_score_witness:
  "predicted_risk_score (hd (feature_table scenario_table)) = 95.5 \<and>
   predicted_risk_level (hd (feature_table scenario_table)) = Some ''CRITICAL''"
  using scenario_factors scenario_score [of "hd (feature_table scenario_table)"]
  by (simp add: risk_factors_def)

section \<open>The report aggregator\<close>

lemma risk_score_of_hashable: "hashable v \<Longrightarrow> risk_score_of v = Inr (ordinal_score v)"
  by (cases v) (auto simp: hashable_def risk_score_of_def ordinal_score_def risk_score_table_def)

lemma reported_levels_Cons:
  "reported_levels (kr # rest) =
     (case map_of (summary (snd kr)) ''risk_level'' of
        None \<Rightarrow> reported_levels rest | Some v \<Rightarrow> v # reported_levels rest)"
  by (simp add: reported_levels_def split: option.splits)

lemma collect_risk_scores_eq:
  "list_all hashable (reported_levels results) \<Longrightarrow>
   collect_risk_scores results = Inr (map ordinal_score (reported_levels results))"
proof (induction results)
  case Nil
  then show ?case by (simp add: reported_levels_def)
next
  case (Cons kr rest)
  then show ?case
    by (cases "map_of (summary (snd kr)) ''risk_level''")
       (simp_all add: reported_levels_Cons risk_score_of_hashable)
qed

lemma overall_risk_eq:
  "overall_risk scores =
     Inr (if scores = [] then (0, ''UNKNOWN'')
          else (sum_list scores / real (length scores),
                bucket_risk_level (sum_list scores / real (length scores))))"
  by (simp add: overall_risk_def py_truediv_def)

lemma bucket_not_unknown: "bucket_risk_level x \<noteq> ''UNKNOWN''"
  by (simp add: bucket_risk_level_def)

lemma try_module_eq:
  "try_module key method st =
     (fst st @ stored key (method (fst (snd st)) (snd (snd st))),
      snd (method (fst (snd st)) (snd (snd st))))"
  by (simp add: try_module_def stored_def split: prod.splits sum.splits)

lemma report_eq:
  assumes "run_modules an self df = (results, self', df')"
    and "list_all hashable (reported_levels results)"
  shows "comprehensive_analysis_report an now self df =
     (Inr \<lparr>module_results = results,
           summary_of_report =
             \<lparr>analysis_timestamp = now,
              total_transactions_analyzed = length (rows df'),
              analyses_completed = length results,
              overall_risk_score =
                fst (if map ordinal_score (reported_levels results) = [] then (0, ''UNKNOWN'')
                     else (mean (map ordinal_score (reported_levels results)),
                           bucket_risk_level (mean (map ordinal_score (reported_levels results))))),
              overall_risk_level =
                snd (if map ordinal_score (reported_levels results) = [] then (0, ''UNKNOWN'')
                     else (mean (map ordinal_score (reported_levels results)),
                           bucket_risk_level (mean (map ordinal_score (reported_levels results))))),
              total_recommendations =
                length (concat (map (\<lambda>kr. recommendations (snd kr)) results)),
              priority_actions =
                take 5 (filter (\<lambda>rec. contains ''immediate'' (lower rec) \<or>
                                       contains ''priority'' (lower rec))
                          (concat (map (\<lambda>kr. recommendations (snd kr)) results)))\<rparr>\<rparr>,
      self', df')"
  using assms
  by (simp add: comprehensive_analysis_report_def collect_risk_scores_eq overall_risk_eq
        mean_def Let_def)


lemma severity_level_in: "Some (PStr (severity_risk_level as)) \<in> low_medium_high"
  by (simp add: severity_risk_level_def low_medium_high_def)

lemma network_level_in: "Some (PStr (network_risk_level n)) \<in> low_medium_high"
  by (simp add: network_risk_level_def low_medium_high_def)

lemma predictive_level_in: "Some (PStr (predictive_summary_risk_level a b)) \<in> low_medium_high"
  by (simp add: predictive_summary_risk_level_def low_medium_high_def)

lemma network_result_level:
  "map_of (summary (network_result lib now G)) ''risk_level'' =
     Some (PStr (network_risk_level (length (suspicious_nodes lib G))))"
  by (simp add: network_result_def)

lemma temporal_result_level:
  "map_of (summary (temporal_result lib now df)) ''risk_level'' =
     Some (PStr (severity_risk_level (temporal_anomalies lib df)))"
  by (simp add: temporal_result_def)

lemma geographic_result_level:
  "map_of (summary (geographic_result lib now df)) ''risk_level'' =
     Some (PStr (severity_risk_level (geographic_anomalies lib df)))"
  by (simp add: geographic_result_def)

lemma behavioral_result_level:
  "map_of (summary (behavioral_result lib now df)) ''risk_level'' =
     Some (PStr (severity_risk_level (behavioral_alerts_of (behavioral_features df))))"
  by (simp add: behavioral_result_def)

lemma predictive_result_level:
  "map_of (summary (predictive_result now cols fs)) ''risk_level'' =
     Some (PStr (predictive_summary_risk_level (length (high_risk_rows fs)) (length fs)))"
  by (simp add: predictive_result_def)

lemma no_location_level: "map_of (summary (no_location_result now)) ''risk_level'' = None"
  by (simp add: no_location_result_def)

lemma network_level:
  "fst (network_analysis lib now self df) = Inr r \<Longrightarrow>
   map_of (summary r) ''risk_level'' \<in> low_medium_high"
  by (auto simp: network_analysis_def network_result_level network_level_in)

lemma temporal_level:
  "fst (temporal_pattern_analysis lib now self df) = Inr r \<Longrightarrow>
   map_of (summary r) ''risk_level'' \<in> low_medium_high"
  by (auto simp: temporal_pattern_analysis_def Let_def temporal_result_level severity_level_in
        split: if_splits)

lemma geographic_level:
  "fst (geographic_clustering_analysis lib now self df) = Inr r \<Longrightarrow>
   (if ''location'' \<in> set (columns df) then map_of (summary r) ''risk_level'' \<in> low_medium_high
    else r = no_location_result now)"
  by (auto simp: geographic_clustering_analysis_def geographic_result_level severity_level_in
        split: if_splits)

lemma behavioral_level:
  "fst (behavioral_profiling lib now self df) = Inr r \<Longrightarrow>
   map_of (summary r) ''risk_level'' \<in> low_medium_high"
  by (auto simp: behavioral_profiling_def behavioral_result_level severity_level_in
        split: if_splits)

lemma predictive_level:
  "fst (predictive_risk_modeling lib now self df) = Inr r \<Longrightarrow>
   map_of (summary r) ''risk_level'' \<in> low_medium_high"
  by (auto simp: predictive_risk_modeling_def predictive_result_level predictive_level_in
        split: if_splits)

lemma run_modules_eq:
  "run_modules an self df =
     (concat (map (\<lambda>(k, out). stored k out) (zip module_keys (module_outcomes an self df))),
      snd (last (module_outcomes an self df)))"
  by (simp add: run_modules_def try_module_eq module_outcomes_def module_keys_def Let_def)

lemma reported_levels_append:
  "reported_levels (xs @ ys) = reported_levels xs @ reported_levels ys"
proof (induction xs)
  case Nil
  show ?case by (simp add: reported_levels_def)
next
  case (Cons kr xs)
  then show ?case by (simp add: reported_levels_Cons split: option.splits)
qed

lemma reported_levels_stored:
  "reported_levels (stored k out) =
     (case fst out of Inl e \<Rightarrow> []
      | Inr r \<Rightarrow> (case map_of (summary r) ''risk_level'' of None \<Rightarrow> [] | Some v \<Rightarrow> [v]))"
  by (simp add: stored_def reported_levels_def split: sum.splits option.splits)

lemma low_medium_high_hashable:
  "fst out = Inr r \<Longrightarrow> map_of (summary r) ''risk_level'' \<in> low_medium_high \<Longrightarrow>
   list_all hashable (reported_levels (stored k out))"
  by (auto simp: reported_levels_stored low_medium_high_def hashable_def)

lemma raised_hashable: "fst out = Inl e \<Longrightarrow> list_all hashable (reported_levels (stored k out))"
  by (simp add: reported_levels_stored)

lemma network_hashable:
  "list_all hashable (reported_levels (stored k (network_analysis lib now self df)))"
  by (cases "fst (network_analysis lib now self df)")
     (auto intro: raised_hashable low_medium_high_hashable network_level)

lemma temporal_hashable:
  "list_all hashable (reported_levels (stored k (temporal_pattern_analysis lib now self df)))"
  by (cases "fst (temporal_pattern_analysis lib now self df)")
     (auto intro: raised_hashable low_medium_high_hashable temporal_level)

lemma behavioral_hashable:
  "list_all hashable (reported_levels (stored k (behavioral_profiling lib now self df)))"
  by (cases "fst (behavioral_profiling lib now self df)")
     (auto intro: raised_hashable low_medium_high_hashable behavioral_level)

lemma predictive_hashable:
  "list_all hashable (reported_levels (stored k (predictive_risk_modeling lib now self df)))"
  by (cases "fst (predictive_risk_modeling lib now self df)")
     (auto intro: raised_hashable low_medium_high_hashable predictive_level)

lemma geographic_hashable:
  "list_all hashable (reported_levels (stored k (geographic_clustering_analysis lib now self df)))"
proof (cases "fst (geographic_clustering_analysis lib now self df)")
  case (Inl e)
  then show ?thesis by (rule raised_hashable)
next
  case (Inr r)
  show ?thesis
  proof (cases "''location'' \<in> set (columns df)")
    case True
    with geographic_level[OF Inr] show ?thesis
      by (auto intro: low_medium_high_hashable[OF Inr])
  next
    case False
    with geographic_level[OF Inr] show ?thesis
      by (simp add: reported_levels_stored Inr no_location_level)
  qed
qed

lemma the_analyzers_hashable:
  "list_all hashable (reported_levels (fst (run_modules (the_analyzers lib now) self df)))"
  by (simp add: run_modules_eq module_keys_def module_outcomes_def Let_def the_analyzers_def
        reported_levels_append network_hashable temporal_hashable geographic_hashable
        behavioral_hashable predictive_hashable)

text \<open>
  C1. Whatever the five analyzers do (raise, return, change the engine or the table), as
  long as the risk levels they report are hashable values (all five write string literals),
  the report returns. Every analyzer is called on the engine and the table that its
  predecessors left, whether they raised or not; the results are exactly those of the
  analyzers that returned, under their keys and in this order, nothing being stored for one
  that raised. The overall level is UNKNOWN exactly when no stored result carries a risk
  level, which is also the case when only the geographic analyzer returned, with its
  no-location summary.
\<close>

theorem report_never_raises:
  assumes "list_all hashable (reported_levels (fst (run_modules an self df)))"
  shows "\<exists>rep. comprehensive_analysis_report an now self df =
            (Inr rep, snd (last (module_outcomes an self df))) \<and>
          module_results rep =
            concat (map (\<lambda>(k, out). stored k out) (zip module_keys (module_outcomes an self df))) \<and>
          (overall_risk_level (summary_of_report rep) = ''UNKNOWN'' \<longleftrightarrow>
             reported_levels (module_results rep) = [])"
proof -
  obtain results self' df' where r: "run_modules an self df = (results, self', df')"
    by (cases "run_modules an self df")
  with assms have h: "list_all hashable (reported_levels results)" by simp
  from r have e: "results =
      concat (map (\<lambda>(k, out). stored k out) (zip module_keys (module_outcomes an self df)))"
    and l: "(self', df') = snd (last (module_outcomes an self df))"
    by (simp_all add: run_modules_eq)
  show ?thesis
    unfolding report_eq[OF r h, of now] l[symmetric] e[symmetric]
    by (simp add: bucket_not_unknown)
qed

theorem report_never_raises_witness:
  "\<exists>rep. comprehensive_analysis_report (the_analyzers sample_library 0) 0 init_engine scenario_table =
            (Inr rep, snd (last (module_outcomes (the_analyzers sample_library 0) init_engine
                                   scenario_table))) \<and>
          module_results rep =
            concat (map (\<lambda>(k, out). stored k out)
              (zip module_keys (module_outcomes (the_analyzers sample_library 0) init_engine
                                  scenario_table))) \<and>
          (overall_risk_level (summary_of_report rep) = ''UNKNOWN'' \<longleftrightarrow>
             reported_levels (module_results rep) = [])"
  by (rule report_never_raises [OF the_analyzers_hashable])


lemma no_location_columns:
  "columns (temporal_table 0 no_location_table) =
     [''customer_id'', ''merchant_name'', ''amount'', ''timestamp'', ''hour'', ''day_of_week'',
      ''day_of_month'', ''month'']"
  "length (rows (temporal_table 0 no_location_table)) = 2"
  by (simp_all add: temporal_table_def extract_time_features_def ensure_timestamp_def
        add_column_def no_location_table_def)

lemma no_location_run:
  "run_modules ((the_analyzers sample_library 0)\<lparr>m_network_analysis := raising TypeError\<rparr>)
     init_engine no_location_table =
   ([(''geographic'', no_location_result 0)], init_engine, temporal_table 0 no_location_table)"
  by (simp add: run_modules_def try_module_def the_analyzers_def raising_def
        temporal_pattern_analysis_def geographic_clustering_analysis_def behavioral_profiling_def
        predictive_risk_modeling_def no_location_columns Let_def)

lemma ensure_location_not_priority:
  "\<not> contains ''immediate'' (lower ''Ensure location data is available for geographic analysis'') \<and>
   \<not> contains ''priority'' (lower ''Ensure location data is available for geographic analysis'')"
  by code_simp

theorem report_unknown_counterexample:
  "fst (comprehensive_analysis_report
          ((the_analyzers sample_library 0)\<lparr>m_network_analysis := raising TypeError\<rparr>)
          0 init_engine no_location_table) =
   Inr \<lparr>module_results = [(''geographic'', no_location_result 0)],
        summary_of_report =
          \<lparr>analysis_timestamp = 0, total_transactions_analyzed = 2, analyses_completed = 1,
           overall_risk_score = 0, overall_risk_level = ''UNKNOWN'',
           total_recommendations = 1, priority_actions = []\<rparr>\<rparr>"
  using ensure_location_not_priority
  by (simp add: comprehensive_analysis_report_def no_location_run no_location_level
        overall_risk_def no_location_columns)
     (simp add: no_location_result_def)

lemma never_critical:
  assumes "\<And>r. fst out = Inr r \<Longrightarrow>
             map_of (summary r) ''risk_level'' \<in> low_medium_high \<or>
             map_of (summary r) ''risk_level'' = None"
  shows "summary_value out ''risk_level'' \<noteq> Some (PStr ''CRITICAL'')"
proof (cases "fst out")
  case (Inl e)
  then show ?thesis by (simp add: summary_value_def)
next
  case (Inr r)
  with assms[OF Inr] show ?thesis by (auto simp: summary_value_def low_medium_high_def)
qed

text \<open>
  C10. No analyzer writes CRITICAL into its summary, on any table. Whenever the network,
  temporal, behavioral or predictive analyzer returns, the risk level of its summary is
  LOW, MEDIUM or HIGH, and so it is when the geographic analyzer returns for a table with a
  location column. For a table without a location column the geographic analyzer returns
  its error summary, which has no risk level at all.
\<close>

theorem analyzers_never_critical:
  "(fst (network_analysis lib now self df) = Inr r1 \<longrightarrow>
      map_of (summary r1) ''risk_level'' \<in> low_medium_high) \<and>
   (fst (temporal_pattern_analysis lib now self df) = Inr r2 \<longrightarrow>
      map_of (summary r2) ''risk_level'' \<in> low_medium_high) \<and>
   (fst (geographic_clustering_analysis lib now self df) = Inr r3 \<longrightarrow>
      (if ''location'' \<in> set (columns df)
       then map_of (summary r3) ''risk_level'' \<in> low_medium_high
       else r3 = no_location_result now \<and> map_of (summary r3) ''risk_level'' = None)) \<and>
   (fst (behavioral_profiling lib now self df) = Inr r4 \<longrightarrow>
      map_of (summary r4) ''risk_level'' \<in> low_medium_high) \<and>
   (fst (predictive_risk_modeling lib now self df) = Inr r5 \<longrightarrow>
      map_of (summary r5) ''risk_level'' \<in> low_medium_high) \<and>
   Some (PStr ''CRITICAL'') \<notin> low_medium_high \<and>
   summary_value (network_analysis lib now self df) ''risk_level'' \<noteq> Some (PStr ''CRITICAL'') \<and>
   summary_value (temporal_pattern_analysis lib now self df) ''risk_level'' \<noteq>
     Some (PStr ''CRITICAL'') \<and>
   summary_value (geographic_clustering_analysis lib now self df) ''risk_level'' \<noteq>
     Some (PStr ''CRITICAL'') \<and>
   summary_value (behavioral_profiling lib now self df) ''risk_level'' \<noteq>
     Some (PStr ''CRITICAL'') \<and>
   summary_value (predictive_risk_modeling lib now self df) ''risk_level'' \<noteq>
     Some (PStr ''CRITICAL'')"
proof -
  have levels:
    "(fst (network_analysis lib now self df) = Inr r1 \<longrightarrow>
        map_of (summary r1) ''risk_level'' \<in> low_medium_high) \<and>
     (fst (temporal_pattern_analysis lib now self df) = Inr r2 \<longrightarrow>
        map_of (summary r2) ''risk_level'' \<in> low_medium_high) \<and>
     (fst (geographic_clustering_analysis lib now self df) = Inr r3 \<longrightarrow>
        (if ''location'' \<in> set (columns df)
         then map_of (summary r3) ''risk_level'' \<in> low_medium_high
         else r3 = no_location_result now \<and> map_of (summary r3) ''risk_level'' = None)) \<and>
     (fst (behavioral_profiling lib now self df) = Inr r4 \<longrightarrow>
        map_of (summary r4) ''risk_level'' \<in> low_medium_high) \<and>
     (fst (predictive_risk_modeling lib now self df) = Inr r5 \<longrightarrow>
        map_of (summary r5) ''risk_level'' \<in> low_medium_high) \<and>
     Some (PStr ''CRITICAL'') \<notin> low_medium_high"
    using network_level[of lib now self df r1] temporal_level[of lib now self df r2]
      geographic_level[of lib now self df r3] behavioral_level[of lib now self df r4]
      predictive_level[of lib now self df r5]
    by (auto simp: no_location_level low_medium_high_def)
  have n: "summary_value (network_analysis lib now self df) ''risk_level'' \<noteq>
      Some (PStr ''CRITICAL'')"
    by (rule never_critical) (simp add: network_level)
  have t: "summary_value (temporal_pattern_analysis lib now self df) ''risk_level'' \<noteq>
      Some (PStr ''CRITICAL'')"
    by (rule never_critical) (simp add: temporal_level)
  have g: "summary_value (geographic_clustering_analysis lib now self df) ''risk_level'' \<noteq>
      Some (PStr ''CRITICAL'')"
  proof (rule never_critical)
    fix r assume "fst (geographic_clustering_analysis lib now self df) = Inr r"
    from geographic_level[OF this]
    show "map_of (summary r) ''risk_level'' \<in> low_medium_high \<or>
          map_of (summary r) ''risk_level'' = None"
      by (cases "''location'' \<in> set (columns df)") (simp_all add: no_location_level)
  qed
  have b: "summary_value (behavioral_profiling lib now self df) ''risk_level'' \<noteq>
      Some (PStr ''CRITICAL'')"
    by (rule never_critical) (simp add: behavioral_level)
  have p: "summary_value (predictive_risk_modeling lib now self df) ''risk_level'' \<noteq>
      Some (PStr ''CRITICAL'')"
    by (rule never_critical) (simp add: predictive_level)
  from levels n t g b p show ?thesis by blast
qed

lemma temporal_table_columns:
  "set (columns (temporal_table now df)) =
     set (columns df) \<union> {''timestamp'', ''hour'', ''day_of_week'', ''day_of_month'', ''month''}"
  by (auto simp: temporal_table_def extract_time_features_def ensure_timestamp_def add_column_def)

lemma temporal_table_length: "length (rows (temporal_table now df)) = length (rows df)"
  by (simp add: temporal_table_def extract_time_features_def ensure_timestamp_def add_column_def)

lemma temporal_table_dtype:
  "timestamp_dtype (temporal_table now df) =
     (if ''timestamp'' \<in> set (columns df) then timestamp_dtype df else Datetime64)"
  by (simp add: temporal_table_def extract_time_features_def ensure_timestamp_def add_column_def)

lemma scenario_table_columns: "columns scenario_table = all_columns"
  and scenario_table_length: "length (rows scenario_table) = 2"
  and scenario_table_dtype: "timestamp_dtype scenario_table = Datetime64"
  by (simp_all add: scenario_table_def)

lemma scenario_returns:
  "fst (network_analysis sample_library 0 init_engine scenario_table) =
     Inr (network_result sample_library 0 (build_graph (py_hash sample_library) 0 scenario_table))"
  "fst (temporal_pattern_analysis sample_library 0 init_engine scenario_table) =
     Inr (temporal_result sample_library 0 (temporal_table 0 scenario_table))"
  "fst (geographic_clustering_analysis sample_library 0 init_engine scenario_table) =
     Inr (geographic_result sample_library 0 scenario_table)"
  "fst (behavioral_profiling sample_library 0 init_engine scenario_table) =
     Inr (behavioral_result sample_library 0 scenario_table)"
  "fst (predictive_risk_modeling sample_library 0 init_engine scenario_table) =
     Inr (predictive_result 0 (columns scenario_table) (feature_table scenario_table))"
      apply (simp add: network_analysis_def)
     apply (simp add: temporal_pattern_analysis_def Let_def temporal_table_columns
      temporal_table_length temporal_table_dtype scenario_table_columns scenario_table_length
      scenario_table_dtype all_columns_def)
    apply (simp add: geographic_clustering_analysis_def scenario_table_columns
      scenario_table_length all_columns_def)
   apply (simp add: behavioral_profiling_def scenario_table_columns scenario_table_dtype
      all_columns_def behavioral_features_def customer_index_def)
   apply (simp add: scenario_table_def sample_transaction_def)
  apply (simp add: predictive_risk_modeling_def scenario_table_columns all_columns_def
      feature_table_def scenario_table_length)
  done

lemma no_location_returns:
  "fst (geographic_clustering_analysis sample_library 0 init_engine no_location_table) =
     Inr (no_location_result 0)"
  by (simp add: geographic_clustering_analysis_def no_location_table_def)

theorem analyzers_never_critical_witness:
  "map_of (summary (network_result sample_library 0
       (build_graph (py_hash sample_library) 0 scenario_table))) ''risk_level'' \<in> low_medium_high \<and>
   map_of (summary (temporal_result sample_library 0 (temporal_table 0 scenario_table)))
     ''risk_level'' \<in> low_medium_high \<and>
   map_of (summary (geographic_result sample_library 0 scenario_table)) ''risk_level''
     \<in> low_medium_high \<and>
   map_of (summary (behavioral_result sample_library 0 scenario_table)) ''risk_level''
     \<in> low_medium_high \<and>
   map_of (summary (predictive_result 0 (columns scenario_table) (feature_table scenario_table)))
     ''risk_level'' \<in> low_medium_high \<and>
   map_of (summary (no_location_result 0)) ''risk_level'' = None"
proof -
  have loc: "''location'' \<notin> set (columns no_location_table)"
    by (simp add: no_location_table_def)
  show ?thesis
    using
      analyzers_never_critical [of sample_library 0 init_engine scenario_table
        "network_result sample_library 0 (build_graph (py_hash sample_library) 0 scenario_table)"
        "temporal_result sample_library 0 (temporal_table 0 scenario_table)"
        "geographic_result sample_library 0 scenario_table"
        "behavioral_result sample_library 0 scenario_table"
        "predictive_result 0 (columns scenario_table) (feature_table scenario_table)"]
      analyzers_never_critical [of sample_library 0 init_engine no_location_table
        "no_location_result 0" "no_location_result 0" "no_location_result 0"
        "no_location_result 0" "no_location_result 0"]
    by (simp add: scenario_returns no_location_returns loc scenario_table_columns
          all_columns_def)
qed

theorem analyzers_never_critical_counterexample:
  "fst (geographic_clustering_analysis sample_library 0 init_engine no_location_table) =
     Inr (no_location_result 0) \<and>
   map_of (summary (no_location_result 0)) ''risk_level'' = None \<and>
   summary_value (geographic_clustering_analysis sample_library 0 init_engine no_location_table)
     ''risk_level'' \<notin> low_medium_high"
  by (simp add: no_location_returns summary_value_def no_location_level low_medium_high_def)

section \<open>Percentages of the temporal and geographic analyzers\<close>


















section \<open>Velocity of a customer\<close>

lemma set_distinct_values: "set (distinct_values xs) = set xs"
  by (induction xs) auto

lemma customer_index_set: "set (customer_index df) = customer_id ` set (rows df)"
  by (simp add: customer_index_def set_distinct_values)

lemma customer_data_nonempty: "cid \<in> set (customer_index df) \<Longrightarrow> customer_data df cid \<noteq> []"
  by (auto simp: customer_index_set customer_data_def filter_empty_conv)

lemma whole_days:
  fixes x d :: int
  assumes "86400 * d \<le> x" "x < 86400 * (d + 1)"
  shows "x div 86400 = d"
proof (rule int_div_pos_eq[where r = "x - 86400 * d"])
  show "x = 86400 * d + (x - 86400 * d)" by simp
  show "0 \<le> x - 86400 * d" using assms(1) by simp
  show "x - 86400 * d < 86400" using assms(2) by simp
qed

lemma date_range_eq:
  assumes "elapsed_days txs days"
  shows "date_range txs = days"
proof -
  from assms obtain t_first t_last where
    f: "t_first \<in> set (map timestamp txs)" "\<forall>t \<in> set (map timestamp txs). t_first \<le> t" and
    l: "t_last \<in> set (map timestamp txs)" "\<forall>t \<in> set (map timestamp txs). t \<le> t_last" and
    d: "86400 * days \<le> t_last - t_first" "t_last - t_first < 86400 * (days + 1)"
    unfolding elapsed_days_def by blast
  have "Min (set (map timestamp txs)) = t_first"
    using f by (intro Min_eqI) auto
  moreover have "Max (set (map timestamp txs)) = t_last"
    using l by (intro Max_eqI) auto
  ultimately show ?thesis
    using whole_days[OF d] by (simp add: date_range_def)
qed

lemma div_bounds:
  fixes x :: int
  shows "86400 * (x div 86400) \<le> x" "x < 86400 * (x div 86400 + 1)"
proof -
  define q where "q = x div 86400"
  define r where "r = x mod 86400"
  have x: "x = 86400 * q + r" by (simp add: q_def r_def)
  have r: "0 \<le> r" "r < 86400" by (simp_all add: r_def)
  show "86400 * (x div 86400) \<le> x" "x < 86400 * (x div 86400 + 1)"
    unfolding q_def[symmetric] using x r by (simp_all add: algebra_simps)
qed

lemma elapsed_days_exists:
  assumes "txs \<noteq> []"
  shows "elapsed_days txs
           ((Max (set (map timestamp txs)) - Min (set (map timestamp txs))) div 86400)"
proof -
  let ?S = "set (map timestamp txs)"
  have ne: "?S \<noteq> {}" using assms by simp
  have "Min ?S \<in> ?S" "Max ?S \<in> ?S"
    using ne by (auto intro: Min_in Max_in)
  moreover have "\<forall>t \<in> ?S. Min ?S \<le> t \<and> t \<le> Max ?S" by simp
  ultimately show ?thesis
    unfolding elapsed_days_def using div_bounds[of "Max ?S - Min ?S"] by blast
qed

lemma elapsed_days_nonneg:
  assumes "elapsed_days txs days"
  shows "0 \<le> days"
proof -
  from assms obtain t_first t_last where
    "t_first \<in> set (map timestamp txs)" "\<forall>t \<in> set (map timestamp txs). t \<le> t_last"
    "t_last - t_first < 86400 * (days + 1)"
    unfolding elapsed_days_def by blast
  then have "0 \<le> t_last - t_first" by auto
  with \<open>t_last - t_first < 86400 * (days + 1)\<close> show ?thesis by simp
qed

lemma elapsed_days_single: "elapsed_days [tx] days \<longleftrightarrow> days = 0"
  by (auto simp: elapsed_days_def)

lemma velocity_eq:
  "velocity (behavioral_features_of df cid) =
     real (length (customer_data df cid)) / real_of_int (max (date_range (customer_data df cid)) 1)"
  by (simp add: behavioral_features_of_def customer_data_def Let_def)

text \<open>
  C8. Every customer of the profile table has an elapsed-day-span, and whatever number
  \<open>days\<close> is that span, the velocity that the loop computes for the customer is the number
  of the customer's transactions divided by \<open>max(days, 1)\<close>. The span is not negative and
  the divisor is at least 1, so that the velocity is positive and at most the number of
  transactions; a customer with exactly one transaction has a span of 0 days and
  velocity 1.
\<close>

theorem velocity_guarded:
  assumes "cid \<in> set (customer_index df)"
  shows "behavioral_features_of df cid \<in> set (behavioral_features df) \<and>
         (\<exists>d. elapsed_days (customer_data df cid) d) \<and>
         (elapsed_days (customer_data df cid) days \<longrightarrow>
            velocity (behavioral_features_of df cid) =
              real (length (customer_data df cid)) / real_of_int (max days 1) \<and>
            0 \<le> days \<and> 1 \<le> max days 1) \<and>
         0 < velocity (behavioral_features_of df cid) \<and>
         velocity (behavioral_features_of df cid) \<le> real (length (customer_data df cid)) \<and>
         (length (customer_data df cid) = 1 \<longrightarrow>
            elapsed_days (customer_data df cid) 0 \<and>
            velocity (behavioral_features_of df cid) = 1 / real_of_int (max 0 1) \<and>
            velocity (behavioral_features_of df cid) = 1)"
proof -
  let ?d = "customer_data df cid"
  let ?m = "max (date_range ?d) 1"
  have ne: "?d \<noteq> []" by (rule customer_data_nonempty[OF assms])
  have mem: "behavioral_features_of df cid \<in> set (behavioral_features df)"
    using assms by (simp add: behavioral_features_def)
  have ex: "\<exists>d. elapsed_days ?d d" using elapsed_days_exists[OF ne] by blast
  have span: "elapsed_days ?d days \<longrightarrow>
      velocity (behavioral_features_of df cid) = real (length ?d) / real_of_int (max days 1) \<and>
      0 \<le> days \<and> 1 \<le> max days 1"
  proof
    assume e: "elapsed_days ?d days"
    show "velocity (behavioral_features_of df cid) = real (length ?d) / real_of_int (max days 1) \<and>
      0 \<le> days \<and> 1 \<le> max days 1"
      using date_range_eq[OF e] elapsed_days_nonneg[OF e] by (simp add: velocity_eq)
  qed
  have n: "0 < length ?d" using ne by simp
  have m: "1 \<le> real_of_int ?m" by simp
  have pos: "0 < real (length ?d) / real_of_int ?m"
    using n m by (intro divide_pos_pos) auto
  have "real (length ?d) * 1 \<le> real (length ?d) * real_of_int ?m"
    using m by (intro mult_left_mono) auto
  then have le: "real (length ?d) / real_of_int ?m \<le> real (length ?d)"
    using m by (simp add: pos_divide_le_eq)
  have one: "length ?d = 1 \<longrightarrow>
      elapsed_days ?d 0 \<and>
      velocity (behavioral_features_of df cid) = 1 / real_of_int (max 0 1) \<and>
      velocity (behavioral_features_of df cid) = 1"
  proof
    assume "length ?d = 1"
    then obtain tx where tx: "?d = [tx]" by (cases ?d) auto
    then have e: "elapsed_days ?d 0" by (simp add: elapsed_days_single)
    from date_range_eq[OF e] tx
    show "elapsed_days ?d 0 \<and>
      velocity (behavioral_features_of df cid) = 1 / real_of_int (max 0 1) \<and>
      velocity (behavioral_features_of df cid) = 1"
      using e by (simp add: velocity_eq)
  qed
  from mem ex span pos le one show ?thesis
    by (simp only: velocity_eq)
qed

lemma three_day_customers:
  "map timestamp (customer_data three_day_table ''C1'') =
     [90000, 3600, 262800, 100000, 180000, 200000]"
  "map timestamp (customer_data three_day_table ''C2'') = [40000]"
  "customer_index three_day_table = [''C1'', ''C2'']"
  by (simp_all add: customer_data_def customer_index_def three_day_table_def
        sample_transaction_def)

lemma three_day_span:
  "elapsed_days (customer_data three_day_table ''C1'') 3"
  "elapsed_days (customer_data three_day_table ''C2'') 0"
  by (simp_all add: elapsed_days_def three_day_customers)

theorem velocity_guarded_witness:
  "length (customer_data three_day_table ''C1'') = 6 \<and>
   elapsed_days (customer_data three_day_table ''C1'') 3 \<and>
   velocity (behavioral_features_of three_day_table ''C1'') = 2 \<and>
   behavioral_features_of three_day_table ''C1'' \<in> set (behavioral_features three_day_table) \<and>
   length (customer_data three_day_table ''C2'') = 1 \<and>
   velocity (behavioral_features_of three_day_table ''C2'') = 1"
proof -
  have c: "''C1'' \<in> set (customer_index three_day_table)"
    "''C2'' \<in> set (customer_index three_day_table)"
    by (simp_all add: three_day_customers)
  have l1: "length (customer_data three_day_table ''C1'') = 6"
    using arg_cong[OF three_day_customers(1), of length] by simp
  have l2: "length (customer_data three_day_table ''C2'') = 1"
    using arg_cong[OF three_day_customers(2), of length] by simp
  from velocity_guarded [OF c(1), of 3] three_day_span(1)
  have "behavioral_features_of three_day_table ''C1'' \<in> set (behavioral_features three_day_table)"
    and "velocity (behavioral_features_of three_day_table ''C1'') =
          real (length (customer_data three_day_table ''C1'')) / real_of_int (max 3 1)"
    by blast+
  moreover from velocity_guarded [OF c(2), of 0] l2
  have "velocity (behavioral_features_of three_day_table ''C2'') = 1"
    by blast
  ultimately show ?thesis by (simp add: l1 l2 three_day_span)
qed

section \<open>The table after an analyzer returned\<close>

lemma scenario_temporal_columns:
  "columns (temporal_table 0 scenario_table) =
     all_columns @ [''hour'', ''day_of_week'', ''day_of_month'', ''month'']"
  by (simp add: temporal_table_def extract_time_features_def ensure_timestamp_def add_column_def
        scenario_table_def all_columns_def)

text \<open>
  C6. The network, geographic, behavioral and predictive analyzers leave the table as it
  was. The temporal analyzer does not: on the sample table it returns, and the table of the
  caller has the four calendar columns \<open>hour\<close>, \<open>day_of_week\<close>, \<open>day_of_month\<close> and
  \<open>month\<close> that it did not have before the call.
\<close>

theorem temporal_mutates_table:
  "snd (snd (network_analysis lib now self df)) = df \<and>
   snd (snd (geographic_clustering_analysis lib now self df)) = df \<and>
   snd (snd (behavioral_profiling lib now self df)) = df \<and>
   snd (snd (predictive_risk_modeling lib now self df)) = df \<and>
   fst (temporal_pattern_analysis sample_library 0 init_engine scenario_table) =
     Inr (temporal_result sample_library 0 (temporal_table 0 scenario_table)) \<and>
   columns scenario_table = all_columns \<and>
   columns (snd (snd (temporal_pattern_analysis sample_library 0 init_engine scenario_table))) =
     all_columns @ [''hour'', ''day_of_week'', ''day_of_month'', ''month''] \<and>
   snd (snd (temporal_pattern_analysis sample_library 0 init_engine scenario_table)) \<noteq>
     scenario_table"
proof -
  have t: "snd (snd (temporal_pattern_analysis sample_library 0 init_engine scenario_table)) =
      temporal_table 0 scenario_table"
    by (simp add: temporal_pattern_analysis_def Let_def)
  have ne: "temporal_table 0 scenario_table \<noteq> scenario_table"
  proof
    assume "temporal_table 0 scenario_table = scenario_table"
    then have "columns (temporal_table 0 scenario_table) = columns scenario_table" by simp
    then show False
      by (simp add: scenario_temporal_columns scenario_table_columns)
  qed
  show ?thesis
    unfolding t
    using ne
    by (simp add: network_analysis_def geographic_clustering_analysis_def behavioral_profiling_def
        predictive_risk_modeling_def scenario_returns scenario_temporal_columns
        scenario_table_columns)
qed

theorem temporal_mutates_table_witness:
  "snd (snd (network_analysis sample_library 0 init_engine scenario_table)) = scenario_table \<and>
   snd (snd (geographic_clustering_analysis sample_library 0 init_engine scenario_table)) =
     scenario_table \<and>
   snd (snd (behavioral_profiling sample_library 0 init_engine scenario_table)) = scenario_table \<and>
   snd (snd (predictive_risk_modeling sample_library 0 init_engine scenario_table)) =
     scenario_table \<and>
   fst (temporal_pattern_analysis sample_library 0 init_engine scenario_table) =
     Inr (temporal_result sample_library 0 (temporal_table 0 scenario_table)) \<and>
   columns scenario_table = all_columns \<and>
   columns (snd (snd (temporal_pattern_analysis sample_library 0 init_engine scenario_table))) =
     all_columns @ [''hour'', ''day_of_week'', ''day_of_month'', ''month''] \<and>
   snd (snd (temporal_pattern_analysis sample_library 0 init_engine scenario_table)) \<noteq>
     scenario_table"
  by (rule temporal_mutates_table)

section \<open>Repeated calls\<close>

lemma add_column_present: "c \<in> set (columns df) \<Longrightarrow> add_column c df = df"
  by (simp add: add_column_def)

lemma in_add_column: "c \<in> set (columns (add_column d df)) \<longleftrightarrow> c = d \<or> c \<in> set (columns df)"
  by (auto simp: add_column_def)

lemma rows_add_column: "rows (add_column c df) = rows df"
  by (simp add: add_column_def)

lemma time_features_idem: "time_features (time_features tx) = time_features tx"
  by (simp add: time_features_def)

lemma rows_extract: "rows (extract_time_features df) = map time_features (rows df)"
  by (simp add: extract_time_features_def rows_add_column)

lemma columns_extract:
  "''hour'' \<in> set (columns (extract_time_features df))"
  "''day_of_week'' \<in> set (columns (extract_time_features df))"
  "''day_of_month'' \<in> set (columns (extract_time_features df))"
  "''month'' \<in> set (columns (extract_time_features df))"
  by (simp_all add: extract_time_features_def in_add_column)

lemma extract_time_features_idem:
  "extract_time_features (extract_time_features df) = extract_time_features df"
proof -
  let ?E = "extract_time_features df"
  have "?E\<lparr>rows := map time_features (rows ?E)\<rparr> = ?E"
    by (simp add: rows_extract time_features_idem)
  then have "extract_time_features ?E =
      add_column ''month'' (add_column ''day_of_month'' (add_column ''day_of_week''
        (add_column ''hour'' ?E)))"
    by (simp only: extract_time_features_def[of ?E])
  also have "\<dots> = ?E"
    by (simp only: add_column_present columns_extract)
  finally show ?thesis .
qed

lemma temporal_table_idem: "temporal_table now2 (temporal_table now1 df) = temporal_table now1 df"
proof -
  have ts: "''timestamp'' \<in> set (columns (temporal_table now1 df))"
    by (simp add: temporal_table_columns)
  have e: "ensure_timestamp now2 (temporal_table now1 df) = temporal_table now1 df"
    using ts by (simp add: ensure_timestamp_def)
  have "temporal_table now2 (temporal_table now1 df) =
          extract_time_features (temporal_table now1 df)"
    unfolding temporal_table_def[of now2] e ..
  also have "\<dots> = temporal_table now1 df"
    unfolding temporal_table_def[of now1] by (rule extract_time_features_idem)
  finally show ?thesis .
qed

lemma temporal_again:
  "same_findings (temporal_pattern_analysis lib now1 self df)
     (called_again (temporal_pattern_analysis lib) now1 now2 self df)"
  by (simp add: called_again_def temporal_pattern_analysis_def Let_def temporal_table_idem
        same_findings_def temporal_result_def)

lemma geographic_again:
  "same_findings (geographic_clustering_analysis lib now1 self df)
     (called_again (geographic_clustering_analysis lib) now1 now2 self df)"
  by (simp add: called_again_def geographic_clustering_analysis_def Let_def
        same_findings_def geographic_result_def no_location_result_def)

lemma behavioral_any_engine:
  "same_findings (behavioral_profiling lib now1 self df) (behavioral_profiling lib now2 self' df)"
  by (simp add: behavioral_profiling_def same_findings_def behavioral_result_def)

lemma behavioral_again:
  "same_findings (behavioral_profiling lib now1 self df)
     (called_again (behavioral_profiling lib) now1 now2 self df)"
proof -
  have "snd (snd (behavioral_profiling lib now1 self df)) = df"
    by (simp add: behavioral_profiling_def)
  then show ?thesis
    using behavioral_any_engine[of lib now1 self df now2
        "fst (snd (behavioral_profiling lib now1 self df))"]
    by (simp add: called_again_def Let_def)
qed

lemma predictive_again:
  "same_findings (predictive_risk_modeling lib now1 self df)
     (called_again (predictive_risk_modeling lib) now1 now2 self df)"
  by (simp add: called_again_def predictive_risk_modeling_def Let_def
        same_findings_def predictive_result_def)

lemma build_graph_clock:
  "''timestamp'' \<in> set (columns df) \<Longrightarrow> build_graph h now2 df = build_graph h now1 df"
proof -
  assume "''timestamp'' \<in> set (columns df)"
  then have "add_transaction h now2 (columns df) = add_transaction h now1 (columns df)"
    by (intro ext) (simp add: add_transaction_def timestamp_of_def)
  then show ?thesis by (simp add: build_graph_def)
qed

lemma network_again:
  assumes "''timestamp'' \<in> set (columns df) \<or> now2 = now1"
  shows "same_findings (network_analysis lib now1 self df)
     (called_again (network_analysis lib) now1 now2 self df)"
proof -
  have g: "build_graph (py_hash lib) now2 df = build_graph (py_hash lib) now1 df"
    using assms build_graph_clock[of df "py_hash lib" now2 now1] by auto
  show ?thesis
    unfolding called_again_def network_analysis_def Let_def same_findings_def
    by (simp add: network_result_def g)
qed

text \<open>
  C9. An analyzer called a second time, at any later instant, on the engine and the table
  that its first call left gives the findings of the first call: the same summary and the
  same detailed results when it returned, the same exception when it raised; only the
  timestamp of the result is that of the call. For the behavioral profiler this holds for
  any engine state at all, since the scaler and the forest are fitted anew, with the seed
  42, on the profiles of the call. For the network analyzer the default timestamps of a
  table without a timestamp column are read from the clock, so the two calls are compared
  with a timestamp column or at the same instant.
\<close>

theorem repeated_calls_agree:
  "same_findings (temporal_pattern_analysis lib now1 self df)
     (called_again (temporal_pattern_analysis lib) now1 now2 self df) \<and>
   same_findings (geographic_clustering_analysis lib now1 self df)
     (called_again (geographic_clustering_analysis lib) now1 now2 self df) \<and>
   same_findings (behavioral_profiling lib now1 self df)
     (called_again (behavioral_profiling lib) now1 now2 self df) \<and>
   same_findings (behavioral_profiling lib now1 self df)
     (behavioral_profiling lib now2 self' df) \<and>
   same_findings (predictive_risk_modeling lib now1 self df)
     (called_again (predictive_risk_modeling lib) now1 now2 self df) \<and>
   (''timestamp'' \<in> set (columns df) \<or> now2 = now1 \<longrightarrow>
      same_findings (network_analysis lib now1 self df)
        (called_again (network_analysis lib) now1 now2 self df))"
  by (intro conjI impI temporal_again geographic_again behavioral_again behavioral_any_engine
        predictive_again network_again)

lemma six_customers_profiles: "length (behavioral_features six_customers_table) = 6"
  by (simp add: behavioral_features_def customer_index_def six_customers_table_def
        sample_transaction_def)

lemma six_customers_returns:
  "behavioral_profiling sample_library 0 init_engine six_customers_table =
     (Inr (behavioral_result sample_library 0 six_customers_table),
      \<lparr>scaler = Some (), isolation_forest = Some (), analysis_cache = []\<rparr>,
      six_customers_table)"
proof -
  have c: "columns six_customers_table = all_columns" by (simp add: six_customers_table_def)
  have d: "timestamp_dtype six_customers_table = Datetime64"
    by (simp add: six_customers_table_def)
  have l: "length (anomaly_scores sample_library six_customers_table) = 6"
    using six_customers_profiles
    by (simp add: anomaly_scores_def normalized_data_def analysis_data_def sample_library_def)
  show ?thesis
    by (simp add: behavioral_profiling_def c d all_columns_def six_customers_profiles l
          fit_engine_def init_engine_def)
qed

theorem repeated_calls_agree_witness:
  "fst (behavioral_profiling sample_library 0 init_engine six_customers_table) =
     Inr (behavioral_result sample_library 0 six_customers_table) \<and>
   fst (snd (behavioral_profiling sample_library 0 init_engine six_customers_table)) \<noteq>
     init_engine \<and>
   same_findings (behavioral_profiling sample_library 0 init_engine six_customers_table)
     (called_again (behavioral_profiling sample_library) 0 60 init_engine six_customers_table) \<and>
   same_findings (temporal_pattern_analysis sample_library 0 init_engine six_customers_table)
     (called_again (temporal_pattern_analysis sample_library) 0 60 init_engine
        six_customers_table) \<and>
   same_findings (network_analysis sample_library 0 init_engine six_customers_table)
     (called_again (network_analysis sample_library) 0 60 init_engine six_customers_table)"
proof -
  have ts: "''timestamp'' \<in> set (columns six_customers_table)"
    by (simp add: six_customers_table_def all_columns_def)
  have ne: "fst (snd (behavioral_profiling sample_library 0 init_engine six_customers_table)) \<noteq>
     init_engine"
    unfolding six_customers_returns by (simp add: init_engine_def)
  show ?thesis
    using repeated_calls_agree [of sample_library 0 init_engine six_customers_table 60
        init_engine] ts ne
    by (simp add: six_customers_returns)
qed

end
